theory Spec2Isabelle
  imports Complex_Main "HOL-Library.Sublist"
begin

section \<open>JavaScript values shared by the services\<close>

text \<open>
  A string is the list of its characters. The operations of the platform that depend on
  Unicode tables or on the formatting of doubles (\<open>String.prototype.toLowerCase\<close>,
  \<open>String.prototype.trim\<close>, the conversion of a number to text, \<open>JSON.stringify\<close>,
  the abstract operation ToString on a parsed value) are fields of the record
  \<open>platform\<close>: every theorem holds for whatever functions the engine provides. An
  exception is the thrown \<open>Error\<close> object with its message; a number is a rational.
\<close>

datatype js_exn = Error string | TypeError string | SyntaxError string

fun message :: "js_exn \<Rightarrow> string" where
  "message (Error m) = m"
| "message (TypeError m) = m"
| "message (SyntaxError m) = m"

text \<open>\<open>hay.includes(needle)\<close>: the needle occurs as a contiguous run of the haystack.\<close>

definition str_includes :: "string \<Rightarrow> string \<Rightarrow> bool" where
  "str_includes hay needle = sublist needle hay"

text \<open>\<open>xs.slice(0, n)\<close> and \<open>xs.slice(-n)\<close> of an array, for a positive literal \<open>n\<close>.\<close>

definition slice_first :: "nat \<Rightarrow> 'a list \<Rightarrow> 'a list" where
  "slice_first n xs = take n xs"

definition slice_last :: "nat \<Rightarrow> 'a list \<Rightarrow> 'a list" where
  "slice_last n xs = drop (length xs - n) xs"

text \<open>\<open>xs.join(sep)\<close> of an array of strings.\<close>

fun join :: "string \<Rightarrow> string list \<Rightarrow> string" where
  "join sep [] = []"
| "join sep [x] = x"
| "join sep (x # y # ys) = x @ sep @ join sep (y # ys)"

text \<open>
  A value parsed from JSON. A JavaScript value that may also be \<open>undefined\<close> is a
  \<open>json option\<close>, with \<open>None\<close> for \<open>undefined\<close>.
\<close>

datatype json =
    JNull
  | JBool bool
  | JNum rat
  | JStr string
  | JArr "json list"
  | JObj "(string \<times> json) list"

record platform =
  toLowerCase :: "string \<Rightarrow> string"
  trim :: "string \<Rightarrow> string"
  numberToString :: "rat \<Rightarrow> string"
  stringify :: "json \<Rightarrow> string"
  toStringValue :: "json \<Rightarrow> js_exn + string"

section \<open>Direct Assistant Client (src/services/geminiDirectService.ts)\<close>

subsection \<open>Data\<close>

record knowledge_entry =
  category :: string
  topic :: string
  content :: string

record history_message =
  sender :: string
  msg_content :: string

record conversation_history =
  recentMessages :: "history_message list option"

record user_context =
  isFounder :: bool
  ip :: "string option"

record mining_stats =
  hashRate :: rat
  isOnline :: bool
  validShares :: rat
  amountDue :: rat
  amountPaid :: rat

record system_version =
  version :: "string option"
  version_status :: "string option"

record gemini_direct_context =
  userContext :: "user_context option"
  miningStats :: "mining_stats option"
  conversationHistory :: "conversation_history option"
  systemVersion :: "system_version option"

record generation_config =
  temperature :: rat
  topP :: rat
  topK :: nat
  maxOutputTokens :: nat

record model_params =
  model :: string
  generationConfig :: generation_config

text \<open>
  The collaborators of the service, none of them under src/: the key manager
  (\<open>apiKeyManager.getCurrentApiKey()\<close> answers a key or null), the constructor of the
  model client (wrapped in try/catch by the source, so it may throw), the model call
  (\<open>getGenerativeModel(params).generateContent(prompt)\<close> followed by
  \<open>response.text()\<close>: it throws, or yields a text that may be absent), and the static
  table \<open>XMRT_KNOWLEDGE_BASE\<close>. The type \<open>'c\<close> is the type of client instances.
  The records above hold the fields of \<open>UserContext\<close>, \<open>MiningStats\<close> and of the
  untyped context members that this file reads; their declarations are not under src/.
\<close>

record 'c collaborators =
  getCurrentApiKey :: "string option"
  newGoogleGenerativeAI :: "string \<Rightarrow> js_exn + 'c"
  generateContent :: "'c \<Rightarrow> model_params \<Rightarrow> string \<Rightarrow> js_exn + string option"
  XMRT_KNOWLEDGE_BASE :: "knowledge_entry list"

text \<open>
  The calls the service makes on its collaborators, in the order it makes them. The list
  is the observable trace of a run; the static field \<open>genAI\<close> is the memoized client.

  Modelled from the spec: \<open>apiKeyManager.markKeyAsWorking()\<close> (not under src/) reports
  the key as healthy to the key manager; it answers nothing and does not throw, so the
  call is an event of the trace and nothing else.
\<close>

datatype 'c event =
    GetCurrentApiKey
  | NewGoogleGenerativeAI string "js_exn + 'c"
  | GenerateContent 'c model_params string
  | MarkKeyAsWorking

record 'c service_state =
  genAI :: "'c option"
  events :: "'c event list"

definition record_event :: "'c event \<Rightarrow> 'c service_state \<Rightarrow> 'c service_state" where
  "record_event e st = st\<lparr>events := events st @ [e]\<rparr>"

definition initial_state :: "'c service_state" where
  "initial_state = \<lparr> genAI = None, events = [] \<rparr>"

subsection \<open>initialize\<close>

definition initialize :: "'c collaborators \<Rightarrow> 'c service_state \<Rightarrow> bool \<times> 'c service_state" where
  "initialize E st =
     (case genAI st of
        Some _ \<Rightarrow> (True, st)
      | None \<Rightarrow>
          (let st1 = record_event GetCurrentApiKey st in
           case getCurrentApiKey E of
             None \<Rightarrow> (False, st1)
           | Some apiKey \<Rightarrow>
               if apiKey = [] then (False, st1)
               else
                 (let r = newGoogleGenerativeAI E apiKey;
                      st2 = record_event (NewGoogleGenerativeAI apiKey r) st1 in
                  case r of
                    Inl _ \<Rightarrow> (False, st2)
                  | Inr c \<Rightarrow> (True, st2\<lparr>genAI := Some c\<rparr>))))"

subsection \<open>Prompt assembly\<close>

definition matchesInput :: "platform \<Rightarrow> string \<Rightarrow> knowledge_entry \<Rightarrow> bool" where
  "matchesInput P userInput item =
     (str_includes (toLowerCase P userInput) (toLowerCase P (category item)) \<or>
      str_includes (toLowerCase P userInput) (toLowerCase P (topic item)))"

definition relevantKnowledge :: "platform \<Rightarrow> knowledge_entry list \<Rightarrow> string \<Rightarrow> knowledge_entry list" where
  "relevantKnowledge P kb userInput = slice_first 3 (filter (matchesInput P userInput) kb)"

definition knowledgeContext :: "knowledge_entry list \<Rightarrow> string" where
  "knowledgeContext ks =
     (if length ks > 0
      then ''\<newline>\<newline>Relevant XMRT-DAO Knowledge:\<newline>'' @ join ''\<newline>'' (map (\<lambda>k. ''- '' @ content k) ks)
      else [])"

definition recentHistory :: "gemini_direct_context \<Rightarrow> history_message list" where
  "recentHistory ctx =
     (case conversationHistory ctx of
        None \<Rightarrow> []
      | Some h \<Rightarrow> (case recentMessages h of None \<Rightarrow> [] | Some ms \<Rightarrow> slice_last 5 ms))"

definition renderMessage :: "history_message \<Rightarrow> string" where
  "renderMessage m = (if sender m = ''user'' then ''User'' else ''Eliza'') @ '': '' @ msg_content m"

definition conversationContext :: "gemini_direct_context \<Rightarrow> string" where
  "conversationContext ctx =
     (if length (recentHistory ctx) > 0
      then ''\<newline>\<newline>Recent Conversation:\<newline>'' @ join ''\<newline>'' (map renderMessage (recentHistory ctx))
      else [])"

text \<open>\<open>${x || 0}\<close> for a number \<open>x\<close>, and \<open>${s || fallback}\<close> for an optional string.\<close>

definition numOrZero :: "platform \<Rightarrow> rat \<Rightarrow> string" where
  "numOrZero P x = (if x = 0 then ''0'' else numberToString P x)"

definition strOr :: "string option \<Rightarrow> string \<Rightarrow> string" where
  "strOr s fallback = (case s of None \<Rightarrow> fallback | Some t \<Rightarrow> if t = [] then fallback else t)"

definition persona :: string where
  "persona =
     ''You are Eliza, the autonomous AI assistant for the XMRT-DAO Ecosystem. You are knowledgeable, helpful, and focused on privacy-focused mobile cryptocurrency mining.\<newline>\<newline>XMRT-DAO Core Mission:\<newline>- Democratize cryptocurrency mining through mobile devices\<newline>- Maintain privacy and decentralization as core values\<newline>- Build an engaged community of miners and contributors\<newline>- Provide transparent, educational resources about crypto mining\<newline>\<newline>Your Personality:\<newline>- Professional yet approachable\<newline>- Technical but explains concepts clearly\<newline>- Privacy-conscious and security-minded\<newline>- Supportive of the XMRT-DAO community''"

definition instructions :: string where
  "instructions =
     ''\<newline>\<newline>Instructions:\<newline>- Provide clear, actionable responses\<newline>- Reference XMRT-DAO knowledge when relevant\<newline>- Maintain conversation context\<newline>- Be concise but thorough\<newline>- Show empathy and understanding\<newline>- Promote community engagement''"

definition userContextPart :: "user_context option \<Rightarrow> string" where
  "userContextPart uc =
     (case uc of
        None \<Rightarrow> []
      | Some u \<Rightarrow>
          ''\<newline>\<newline>User Context:''
          @ (if isFounder u
             then ''\<newline>- User is a FOUNDER - provide advanced insights and system details'' else [])
          @ ''\<newline>- Session: '' @ strOr (ip u) ''anonymous'')"

definition miningStatsPart :: "platform \<Rightarrow> mining_stats option \<Rightarrow> string" where
  "miningStatsPart P ms =
     (case ms of
        None \<Rightarrow> []
      | Some s \<Rightarrow>
          ''\<newline>\<newline>User's Mining Status:''
          @ ''\<newline>- Hash Rate: '' @ numOrZero P (hashRate s) @ '' H/s''
          @ ''\<newline>- Status: '' @ (if isOnline s then ''ACTIVE'' else ''INACTIVE'')
          @ ''\<newline>- Valid Shares: '' @ numOrZero P (validShares s)
          @ ''\<newline>- Amount Due: '' @ numOrZero P (amountDue s) @ '' XMR''
          @ ''\<newline>- Amount Paid: '' @ numOrZero P (amountPaid s) @ '' XMR'')"

definition systemVersionPart :: "system_version option \<Rightarrow> string" where
  "systemVersionPart sv =
     (case sv of
        None \<Rightarrow> []
      | Some v \<Rightarrow>
          ''\<newline>\<newline>System Information:''
          @ ''\<newline>- Version: '' @ strOr (version v) ''unknown''
          @ ''\<newline>- Status: '' @ strOr (version_status v) ''unknown'')"

definition buildSystemPrompt :: "platform \<Rightarrow> gemini_direct_context \<Rightarrow> string" where
  "buildSystemPrompt P ctx =
     persona @ userContextPart (userContext ctx) @ miningStatsPart P (miningStats ctx)
       @ systemVersionPart (systemVersion ctx) @ instructions"

definition fullPrompt :: "platform \<Rightarrow> knowledge_entry list \<Rightarrow> string \<Rightarrow> gemini_direct_context \<Rightarrow> string" where
  "fullPrompt P kb userInput ctx =
     buildSystemPrompt P ctx @ knowledgeContext (relevantKnowledge P kb userInput)
       @ conversationContext ctx @ ''\<newline>\<newline>User: '' @ userInput @ ''\<newline>\<newline>Eliza:''"

definition geminiParams :: model_params where
  "geminiParams =
     \<lparr> model = ''gemini-2.0-flash-exp'',
       generationConfig = \<lparr> temperature = 7 / 10, topP = 8 / 10, topK = 40, maxOutputTokens = 2048 \<rparr> \<rparr>"

subsection \<open>generateResponse\<close>

text \<open>The body of the try block: the result is the thrown exception or the returned text.\<close>

definition generateTry ::
  "platform \<Rightarrow> 'c collaborators \<Rightarrow> string \<Rightarrow> gemini_direct_context \<Rightarrow> 'c \<Rightarrow> 'c service_state
     \<Rightarrow> (js_exn + string) \<times> 'c service_state" where
  "generateTry P E userInput ctx c st =
     (let prompt = fullPrompt P (XMRT_KNOWLEDGE_BASE E) userInput ctx;
          st1 = record_event (GenerateContent c geminiParams prompt) st in
      case generateContent E c geminiParams prompt of
        Inl e \<Rightarrow> (Inl e, st1)
      | Inr None \<Rightarrow> (Inl (Error ''Empty response from Gemini''), st1)
      | Inr (Some responseText) \<Rightarrow>
          if responseText = [] \<or> length (trim P responseText) = 0
          then (Inl (Error ''Empty response from Gemini''), st1)
          else (Inr (trim P responseText), record_event MarkKeyAsWorking st1))"

text \<open>The catch block: the exception that leaves \<open>generateResponse\<close>.\<close>

definition rethrow :: "js_exn \<Rightarrow> js_exn" where
  "rethrow error =
     (if str_includes (message error) ''quota''
      then Error ''Gemini API quota exceeded. Please add your own API key or try again later.''
      else if str_includes (message error) ''invalid''
      then Error ''Invalid Gemini API key. Please check your API key configuration.''
      else if str_includes (message error) ''permission''
      then Error ''API key lacks permissions. Please ensure Gemini API is enabled.''
      else error)"

definition generateResponse ::
  "platform \<Rightarrow> 'c collaborators \<Rightarrow> string \<Rightarrow> gemini_direct_context \<Rightarrow> 'c service_state
     \<Rightarrow> (js_exn + string) \<times> 'c service_state" where
  "generateResponse P E userInput ctx st =
     (case initialize E st of
        (initialized, st1) \<Rightarrow>
          (case genAI st1 of
             None \<Rightarrow> (Inl (Error ''Gemini Direct Service not available - no API key''), st1)
           | Some c \<Rightarrow>
               if \<not> initialized
               then (Inl (Error ''Gemini Direct Service not available - no API key''), st1)
               else
                 (case generateTry P E userInput ctx c st1 of
                    (Inl e, st2) \<Rightarrow> (Inl (rethrow e), st2)
                  | (Inr text, st2) \<Rightarrow> (Inr text, st2))))"

section \<open>Edge proxies (supabase/functions)\<close>

subsection \<open>Reading parsed values\<close>

text \<open>
  \<open>JSON.parse\<close> keeps the last of several members with one key. \<open>own\<close> reads an own
  property of a value that is neither null nor undefined; it is used for keys that no
  prototype defines (messages, model, choices, message, content, usage, error, role, ...),
  so a primitive or an array has none of them.
\<close>

definition lookup :: "(string \<times> json) list \<Rightarrow> string \<Rightarrow> json option" where
  "lookup members key = map_of (rev members) key"

fun own :: "json \<Rightarrow> string \<Rightarrow> json option" where
  "own (JObj members) key = lookup members key"
| "own _ key = None"

definition quoted :: "string \<Rightarrow> string" where
  "quoted s = [CHR 0x27] @ s @ [CHR 0x27]"

text \<open>\<open>base.key\<close>: a TypeError on null and undefined (the wording of V8).\<close>

definition readProp :: "json option \<Rightarrow> string \<Rightarrow> js_exn + json option" where
  "readProp base key =
     (case base of
        None \<Rightarrow> Inl (TypeError (''Cannot read properties of undefined (reading '' @ quoted key @ '')''))
      | Some JNull \<Rightarrow> Inl (TypeError (''Cannot read properties of null (reading '' @ quoted key @ '')''))
      | Some v \<Rightarrow> Inr (own v key))"

text \<open>\<open>base?.key\<close>.\<close>

definition optProp :: "json option \<Rightarrow> string \<Rightarrow> json option" where
  "optProp base key = (case base of None \<Rightarrow> None | Some JNull \<Rightarrow> None | Some v \<Rightarrow> own v key)"

text \<open>The element \<open>v[0]\<close> of a value that is neither null nor undefined.\<close>

fun index0 :: "json \<Rightarrow> json option" where
  "index0 (JArr xs) = (case xs of [] \<Rightarrow> None | x # _ \<Rightarrow> Some x)"
| "index0 (JStr s) = (case s of [] \<Rightarrow> None | c # _ \<Rightarrow> Some (JStr [c]))"
| "index0 (JObj members) = lookup members ''0''"
| "index0 _ = None"

definition readIndex0 :: "json option \<Rightarrow> js_exn + json option" where
  "readIndex0 base =
     (case base of
        None \<Rightarrow> Inl (TypeError (''Cannot read properties of undefined (reading '' @ quoted ''0'' @ '')''))
      | Some JNull \<Rightarrow> Inl (TypeError (''Cannot read properties of null (reading '' @ quoted ''0'' @ '')''))
      | Some v \<Rightarrow> Inr (index0 v))"

definition optIndex0 :: "json option \<Rightarrow> json option" where
  "optIndex0 base = (case base of None \<Rightarrow> None | Some JNull \<Rightarrow> None | Some v \<Rightarrow> index0 v)"

text \<open>Truthiness, as \<open>!v\<close> and \<open>v || w\<close> decide it.\<close>

fun truthy :: "json option \<Rightarrow> bool" where
  "truthy None = False"
| "truthy (Some JNull) = False"
| "truthy (Some (JBool b)) = b"
| "truthy (Some (JNum n)) = (n \<noteq> 0)"
| "truthy (Some (JStr s)) = (s \<noteq> [])"
| "truthy (Some (JArr xs)) = True"
| "truthy (Some (JObj members)) = True"

definition orElse :: "json option \<Rightarrow> json \<Rightarrow> json" where
  "orElse v w = (case v of Some x \<Rightarrow> if truthy v then x else w | None \<Rightarrow> w)"

text \<open>A destructuring default \<open>{ key = d }\<close> applies to undefined only.\<close>

definition withDefault :: "json option \<Rightarrow> json \<Rightarrow> json" where
  "withDefault v d = (case v of None \<Rightarrow> d | Some x \<Rightarrow> x)"

text \<open>
  An object literal given to \<open>JSON.stringify\<close>: a member whose value is undefined is
  left out of the text.
\<close>

definition object :: "(string \<times> json option) list \<Rightarrow> json" where
  "object members = JObj (List.map_filter (\<lambda>(k, v). map_option (Pair k) v) members)"

text \<open>The decimal text of a natural number (\<open>${response.status}\<close>).\<close>

fun decimal :: "nat \<Rightarrow> string" where
  "decimal n =
     (if n < 10 then [''0123456789'' ! n]
      else decimal (n div 10) @ [''0123456789'' ! (n mod 10)])"

declare decimal.simps [simp del]

subsection \<open>Requests, responses and the gateway\<close>

text \<open>
  A request is its method and what \<open>await req.json()\<close> yields: the parsed body, or
  the exception of a body that does not parse. A response is its status, its headers
  and its body: \<open>None\<close> for \<open>new Response(null, ...)\<close>, and \<open>Some v\<close> for the text
  \<open>JSON.stringify(v)\<close>.
\<close>

record request =
  req_method :: string
  req_json :: "js_exn + json"

record response =
  status :: nat
  headers :: "(string \<times> string) list"
  body :: "json option"

text \<open>
  A call of \<open>fetch\<close> on the gateway and its answer: the status, the text of the body
  (\<open>await response.text()\<close>) and the body as parsed (\<open>await response.json()\<close>, which
  throws on a body that is not JSON). Reading the text rejects when the body does not
  arrive in full. A handler reads the body of an answer once, as text or as JSON.
\<close>

record outbound =
  url :: string
  out_method :: string
  out_headers :: "(string \<times> string) list"
  payload :: json

record gateway_response =
  gw_status :: nat
  gw_text :: "js_exn + string"
  gw_json :: "js_exn + json"

text \<open>
  The environment of a handler: \<open>Deno.env.get('LOVABLE_API_KEY')\<close>, \<open>fetch\<close> (it
  rejects, or resolves with the gateway's answer), the clock read by
  \<open>new Date().toISOString()\<close>, and lines 25 to 39 of Variant A, which build its system
  prompt from three request fields through JavaScript's coercions and either throw or
  yield the prompt.
\<close>

record proxy_env =
  LOVABLE_API_KEY :: "string option"
  fetch :: "outbound \<Rightarrow> js_exn + gateway_response"
  nowISO :: string
  geminiSystemPrompt :: "json option \<Rightarrow> json option \<Rightarrow> json option \<Rightarrow> js_exn + string"

definition ok :: "gateway_response \<Rightarrow> bool" where
  "ok r = (200 \<le> gw_status r \<and> gw_status r \<le> 299)"

definition corsHeaders :: "(string \<times> string) list" where
  "corsHeaders =
     [(''Access-Control-Allow-Origin'', ''*''),
      (''Access-Control-Allow-Headers'', ''authorization, x-client-info, apikey, content-type'')]"

definition preflight :: response where
  "preflight = \<lparr> status = 200, headers = corsHeaders, body = None \<rparr>"

definition jsonResponse :: "nat \<Rightarrow> json \<Rightarrow> response" where
  "jsonResponse code v =
     \<lparr> status = code, headers = corsHeaders @ [(''Content-Type'', ''application/json'')], body = Some v \<rparr>"

definition gatewayUrl :: string where
  "gatewayUrl = ''https://ai.gateway.lovable.dev/v1/chat/completions''"

definition gatewayCall :: "string \<Rightarrow> json \<Rightarrow> outbound" where
  "gatewayCall key v =
     \<lparr> url = gatewayUrl, out_method = ''POST'',
       out_headers = [(''Authorization'', ''Bearer '' @ key), (''Content-Type'', ''application/json'')],
       payload = v \<rparr>"

text \<open>\<open>const { messages, ... } = await req.json()\<close>: the parsed body, unless it is null.\<close>

definition destructure :: "request \<Rightarrow> js_exn + json" where
  "destructure req =
     (case req_json req of
        Inl e \<Rightarrow> Inl e
      | Inr JNull \<Rightarrow>
          Inl (TypeError (''Cannot destructure property '' @ quoted ''messages''
                 @ '' of '' @ quoted ''(intermediate value)'' @ '' as it is null.''))
      | Inr b \<Rightarrow> Inr b)"

text \<open>
  A handler's try block runs up to \<open>fetch\<close> (\<open>prepare\<close>: it throws or builds the call),
  calls the gateway once, and handles the answer (\<open>answer\<close>: it throws or responds).
  The result lists the calls made.
\<close>

definition viaGateway ::
  "proxy_env \<Rightarrow> js_exn + outbound \<Rightarrow> (gateway_response \<Rightarrow> js_exn + response)
     \<Rightarrow> (js_exn + response) \<times> outbound list" where
  "viaGateway env prepared answer =
     (case prepared of
        Inl e \<Rightarrow> (Inl e, [])
      | Inr call \<Rightarrow>
          (case fetch env call of
             Inl e \<Rightarrow> (Inl e, [call])
           | Inr r \<Rightarrow> (answer r, [call])))"

subsection \<open>Variant C (supabase/functions/openai-chat/index.ts)\<close>

definition openaiChatPrepare :: "proxy_env \<Rightarrow> request \<Rightarrow> js_exn + outbound" where
  "openaiChatPrepare env req =
     (case destructure req of
        Inl e \<Rightarrow> Inl e
      | Inr b \<Rightarrow>
          (case own b ''messages'' of
             Some (JArr ms) \<Rightarrow>
               (case LOVABLE_API_KEY env of
                  None \<Rightarrow> Inl (Error ''LOVABLE_API_KEY not configured'')
                | Some lovableApiKey \<Rightarrow>
                    if lovableApiKey = [] then Inl (Error ''LOVABLE_API_KEY not configured'')
                    else Inr (gatewayCall lovableApiKey
                      (object
                        [(''model'', Some (withDefault (own b ''model'') (JStr ''openai/gpt-5-mini''))),
                         (''messages'', Some (JArr ms)),
                         (''temperature'', Some (withDefault (own b ''temperature'') (JNum (9 / 10)))),
                         (''max_tokens'', Some (withDefault (own b ''max_tokens'') (JNum 8000))),
                         (''stream'', Some (JBool False))])))
           | _ \<Rightarrow> Inl (Error ''Messages array is required'')))"

definition openaiChatAnswer :: "platform \<Rightarrow> gateway_response \<Rightarrow> js_exn + response" where
  "openaiChatAnswer P r =
     (if \<not> ok r then
        if gw_status r = 429 then
          Inr (jsonResponse 429
            (object [(''success'', Some (JBool False)),
                     (''error'', Some (JStr ''Rate limit exceeded, please try again later''))]))
        else if gw_status r = 402 then
          Inr (jsonResponse 402
            (object [(''success'', Some (JBool False)),
                     (''error'', Some (JStr ''Payment required, please add credits to your workspace''))]))
        else
          (case gw_json r of
             Inl e \<Rightarrow> Inl e
           | Inr errorData \<Rightarrow>
               (case readProp (Some errorData) ''error'' of
                  Inl e \<Rightarrow> Inl e
                | Inr err \<Rightarrow>
                    (case orElse (optProp err ''message'') (JStr ''AI Gateway request failed'') of
                       JStr m \<Rightarrow> Inl (Error m)
                     | v \<Rightarrow> (case toStringValue P v of Inl e \<Rightarrow> Inl e | Inr m \<Rightarrow> Inl (Error m)))))
      else
        (case gw_json r of
           Inl e \<Rightarrow> Inl e
         | Inr data \<Rightarrow>
             (case readProp (Some data) ''choices'' of
                Inl e \<Rightarrow> Inl e
              | Inr choices \<Rightarrow>
                  (case readIndex0 choices of
                     Inl e \<Rightarrow> Inl e
                   | Inr first \<Rightarrow>
                       Inr (jsonResponse 200
                         (object
                           [(''success'', Some (JBool True)),
                            (''response'', Some (orElse (optProp (optProp first ''message'') ''content'') (JStr [])) ),
                            (''usage'', own data ''usage''),
                            (''model'', own data ''model'')]))))))"

definition openaiChatTry :: "platform \<Rightarrow> proxy_env \<Rightarrow> request \<Rightarrow> (js_exn + response) \<times> outbound list" where
  "openaiChatTry P env req = viaGateway env (openaiChatPrepare env req) (openaiChatAnswer P)"

definition openaiChatCatch :: "js_exn \<Rightarrow> response" where
  "openaiChatCatch error =
     jsonResponse 500
       (object [(''success'', Some (JBool False)),
                (''error'', Some (JStr (if message error = [] then ''Unknown error occurred'' else message error)))])"

definition openaiChat :: "platform \<Rightarrow> proxy_env \<Rightarrow> request \<Rightarrow> response \<times> outbound list" where
  "openaiChat P env req =
     (if req_method req = ''OPTIONS'' then (preflight, [])
      else
        (case openaiChatTry P env req of
           (Inr resp, calls) \<Rightarrow> (resp, calls)
         | (Inl error, calls) \<Rightarrow> (openaiChatCatch error, calls)))"

subsection \<open>What Variants A and B share\<close>

text \<open>
  Lines 63 to 104 of Variant A and lines 55 to 96 of Variant B are the same text: the
  handling of the gateway's answer. An answer that is not ok has its text read first
  (\<open>const errorText = await response.text()\<close>), before the tests of the status. The
  arrow of the 402 message (U+2192) is written as its three UTF-8 bytes.
\<close>

definition rateLimitMessage :: string where
  "rateLimitMessage = ''Lovable AI rate limit exceeded. Please try again in a moment.''"

definition creditsMessage :: string where
  "creditsMessage =
     ''Lovable AI credits exhausted. Please add credits at Settings '' @ [CHR 0xE2, CHR 0x86, CHR 0x92]
       @ '' Workspace '' @ [CHR 0xE2, CHR 0x86, CHR 0x92] @ '' Usage.''"

definition lovableAnswer :: "gateway_response \<Rightarrow> js_exn + response" where
  "lovableAnswer r =
     (if \<not> ok r then
        (case gw_text r of
           Inl e \<Rightarrow> Inl e
         | Inr errorText \<Rightarrow>
             if gw_status r = 429 then
               Inr (jsonResponse 429
                 (object [(''success'', Some (JBool False)), (''error'', Some (JStr rateLimitMessage))]))
             else if gw_status r = 402 then
               Inr (jsonResponse 402
                 (object [(''success'', Some (JBool False)), (''error'', Some (JStr creditsMessage))]))
             else
               Inl (Error (''Lovable AI Gateway error: '' @ decimal (gw_status r) @ '' - '' @ errorText)))
      else
        (case gw_json r of
           Inl e \<Rightarrow> Inl e
         | Inr data \<Rightarrow>
             (case readProp (Some data) ''choices'' of
                Inl e \<Rightarrow> Inl e
              | Inr choices \<Rightarrow>
                  Inr (jsonResponse 200
                    (object
                      [(''success'', Some (JBool True)),
                       (''response'',
                          Some (orElse (optProp (optProp (optIndex0 choices) ''message'') ''content'')
                                  (JStr ''I'm here to help with XMRT-DAO tasks.''))),
                       (''hasToolCalls'', Some (JBool False))])))))"

definition requireKey :: "proxy_env \<Rightarrow> js_exn + string" where
  "requireKey env =
     (case LOVABLE_API_KEY env of
        None \<Rightarrow> Inl (Error ''AI service not configured'')
      | Some k \<Rightarrow> if k = [] then Inl (Error ''AI service not configured'') else Inr k)"

definition notAFunction :: "string \<Rightarrow> js_exn" where
  "notAFunction what = TypeError (what @ '' is not a function'')"

subsection \<open>Variant A (src/unnamed/part_000)\<close>

text \<open>
  \<open>[system, ...messages.slice(-10)]\<close>. An array gives its last ten elements; a string has
  a \<open>slice\<close> too, and spreading the result gives its characters one by one.
\<close>

definition geminiRecent :: "json option \<Rightarrow> js_exn + json list" where
  "geminiRecent messages =
     (case messages of
        None \<Rightarrow> Inl (TypeError (''Cannot read properties of undefined (reading '' @ quoted ''slice'' @ '')''))
      | Some JNull \<Rightarrow> Inl (TypeError (''Cannot read properties of null (reading '' @ quoted ''slice'' @ '')''))
      | Some (JArr ms) \<Rightarrow> Inr (slice_last 10 ms)
      | Some (JStr s) \<Rightarrow> Inr (map (\<lambda>c. JStr [c]) (slice_last 10 s))
      | Some _ \<Rightarrow> Inl (notAFunction ''messages.slice''))"

definition systemMessage :: "string \<Rightarrow> json" where
  "systemMessage prompt = object [(''role'', Some (JStr ''system'')), (''content'', Some (JStr prompt))]"

definition geminiChatPrepare :: "proxy_env \<Rightarrow> request \<Rightarrow> js_exn + outbound" where
  "geminiChatPrepare env req =
     (case destructure req of
        Inl e \<Rightarrow> Inl e
      | Inr b \<Rightarrow>
          (case requireKey env of
             Inl e \<Rightarrow> Inl e
           | Inr key \<Rightarrow>
               (case geminiSystemPrompt env (own b ''conversationHistory'') (own b ''miningStats'')
                       (own b ''userContext'') of
                  Inl e \<Rightarrow> Inl e
                | Inr systemPrompt \<Rightarrow>
                    (case geminiRecent (own b ''messages'') of
                       Inl e \<Rightarrow> Inl e
                     | Inr recent \<Rightarrow>
                         Inr (gatewayCall key
                           (object
                             [(''model'', Some (JStr ''google/gemini-2.5-pro'')),
                              (''messages'', Some (JArr (systemMessage systemPrompt # recent))),
                              (''stream'', Some (JBool False))]))))))"

definition geminiChatTry :: "proxy_env \<Rightarrow> request \<Rightarrow> (js_exn + response) \<times> outbound list" where
  "geminiChatTry env req = viaGateway env (geminiChatPrepare env req) lovableAnswer"

definition geminiChatCatch :: "proxy_env \<Rightarrow> js_exn \<Rightarrow> response" where
  "geminiChatCatch env error =
     jsonResponse 500
       (object
         [(''success'', Some (JBool False)),
          (''error'', Some (object
             [(''type'', Some (JStr ''invalid_request'')),
              (''code'', Some (JNum 400)),
              (''message'', Some (JStr (message error))),
              (''service'', Some (JStr ''gemini-chat'')),
              (''details'', Some (object
                 [(''timestamp'', Some (JStr (nowISO env))),
                  (''executive'', Some (JStr ''CIO'')),
                  (''model'', Some (JStr ''google/gemini-2.5-pro''))])),
              (''canRetry'', Some (JBool False)),
              (''suggestedAction'', Some (JStr ''check_request_format''))]))])"

definition geminiChat :: "proxy_env \<Rightarrow> request \<Rightarrow> response \<times> outbound list" where
  "geminiChat env req =
     (if req_method req = ''OPTIONS'' then (preflight, [])
      else
        (case geminiChatTry env req of
           (Inr resp, calls) \<Rightarrow> (resp, calls)
         | (Inl error, calls) \<Rightarrow> (geminiChatCatch env error, calls)))"

subsection \<open>Variant B (src/unnamed/part_001)\<close>

text \<open>\<open>xs.map(f)\<close> for an \<open>f\<close> that may throw: the first exception ends the loop.\<close>

fun mapThrowing :: "('a \<Rightarrow> js_exn + 'b) \<Rightarrow> 'a list \<Rightarrow> js_exn + 'b list" where
  "mapThrowing f [] = Inr []"
| "mapThrowing f (x # xs) =
     (case f x of
        Inl e \<Rightarrow> Inl e
      | Inr y \<Rightarrow> (case mapThrowing f xs of Inl e \<Rightarrow> Inl e | Inr ys \<Rightarrow> Inr (y # ys)))"

definition minimalMessage :: "platform \<Rightarrow> json \<Rightarrow> js_exn + json" where
  "minimalMessage P msg =
     (case readProp (Some msg) ''role'' of
        Inl e \<Rightarrow> Inl e
      | Inr role \<Rightarrow>
          Inr (object
            [(''role'', role),
             (''content'',
                (case own msg ''content'' of
                   None \<Rightarrow> None
                 | Some (JStr s) \<Rightarrow> Some (JStr s)
                 | Some v \<Rightarrow> Some (JStr (stringify P v))))]))"

definition deepseekRecent :: "platform \<Rightarrow> json option \<Rightarrow> js_exn + json list" where
  "deepseekRecent P messages =
     (case messages of
        None \<Rightarrow> Inl (TypeError (''Cannot read properties of undefined (reading '' @ quoted ''slice'' @ '')''))
      | Some JNull \<Rightarrow> Inl (TypeError (''Cannot read properties of null (reading '' @ quoted ''slice'' @ '')''))
      | Some (JArr ms) \<Rightarrow> mapThrowing (minimalMessage P) (slice_last 3 ms)
      | Some (JStr s) \<Rightarrow> Inl (notAFunction ''messages.slice(...).map'')
      | Some _ \<Rightarrow> Inl (notAFunction ''messages.slice''))"

definition deepseekChatPrepare :: "platform \<Rightarrow> proxy_env \<Rightarrow> request \<Rightarrow> js_exn + outbound" where
  "deepseekChatPrepare P env req =
     (case destructure req of
        Inl e \<Rightarrow> Inl e
      | Inr b \<Rightarrow>
          (case requireKey env of
             Inl e \<Rightarrow> Inl e
           | Inr key \<Rightarrow>
               (case deepseekRecent P (own b ''messages'') of
                  Inl e \<Rightarrow> Inl e
                | Inr recent \<Rightarrow>
                    Inr (gatewayCall key
                      (object
                        [(''model'', Some (JStr ''google/gemini-2.5-flash'')),
                         (''messages'',
                            Some (JArr (systemMessage ''You are Eliza, an AI assistant for XMRT-DAO.''
                                          # recent))),
                         (''stream'', Some (JBool False))])))))"

definition deepseekChatTry :: "platform \<Rightarrow> proxy_env \<Rightarrow> request \<Rightarrow> (js_exn + response) \<times> outbound list" where
  "deepseekChatTry P env req = viaGateway env (deepseekChatPrepare P env req) lovableAnswer"

definition deepseekChatCatch :: "js_exn \<Rightarrow> response" where
  "deepseekChatCatch error =
     jsonResponse 500
       (object [(''success'', Some (JBool False)), (''error'', Some (JStr (message error)))])"

definition deepseekChat :: "platform \<Rightarrow> proxy_env \<Rightarrow> request \<Rightarrow> response \<times> outbound list" where
  "deepseekChat P env req =
     (if req_method req = ''OPTIONS'' then (preflight, [])
      else
        (case deepseekChatTry P env req of
           (Inr resp, calls) \<Rightarrow> (resp, calls)
         | (Inl error, calls) \<Rightarrow> (deepseekChatCatch error, calls)))"

section \<open>Speech Synthesis Wrapper (src/services/enhancedTTSService.ts)\<close>

record voice =
  voice_name :: string
  lang :: string
  localService :: bool

record utterance =
  spoken :: string
  rate :: rat
  pitch :: rat
  volume :: rat
  voice :: "voice option"

text \<open>
  \<open>window.speechSynthesis\<close>, when the browser has it: the voices \<open>getVoices()\<close>
  answers, the flag \<open>speaking\<close>, and the calls the wrapper has made on it. The window
  also shows the toasts raised through \<open>toast.error\<close> of the library sonner, which
  answers nothing and does not throw. The fields of the wrapper's one instance
  (\<open>lastMethod\<close>, \<open>currentUtterance\<close>, \<open>isInitialized\<close>) are kept in the same record.
\<close>

datatype synth_call = Cancel | Speak utterance

record speech_synthesis =
  voices :: "voice list"
  speaking :: bool
  synth_calls :: "synth_call list"

record tts_world =
  speechSynthesis :: "speech_synthesis option"
  toasts :: "string list"
  lastMethod :: string
  currentUtterance :: "utterance option"
  isInitialized :: bool

text \<open>The promise a call of \<open>speak\<close> returns. A settled promise stays as it is.\<close>

datatype promise = Pending | Resolved | Rejected js_exn

fun resolve :: "promise \<Rightarrow> promise" where
  "resolve Pending = Resolved"
| "resolve p = p"

fun reject :: "js_exn \<Rightarrow> promise \<Rightarrow> promise" where
  "reject e Pending = Rejected e"
| "reject e p = p"

definition initial_world :: "speech_synthesis option \<Rightarrow> tts_world" where
  "initial_world synth =
     \<lparr> speechSynthesis = synth, toasts = [], lastMethod = ''Web Speech API'',
       currentUtterance = None, isInitialized = False \<rparr>"

text \<open>
  \<open>loadVoices\<close>: the executor reads \<open>window.speechSynthesis.getVoices()\<close>, which throws
  when the browser has no speech synthesis; otherwise the promise resolves, at once, on
  the voiceschanged event or after the timeout of one second.
\<close>

definition loadVoices :: "tts_world \<Rightarrow> js_exn + unit" where
  "loadVoices w =
     (case speechSynthesis w of
        None \<Rightarrow> Inl (TypeError (''Cannot read properties of undefined (reading '' @ quoted ''getVoices'' @ '')''))
      | Some _ \<Rightarrow> Inr ())"

text \<open>\<open>initialize\<close> of the wrapper: both the try block and the catch block set the flag.\<close>

definition tts_initialize :: "tts_world \<Rightarrow> tts_world" where
  "tts_initialize w =
     (if isInitialized w then w
      else (case loadVoices w of Inr _ \<Rightarrow> w\<lparr>isInitialized := True\<rparr> | Inl _ \<Rightarrow> w\<lparr>isInitialized := True\<rparr>))"

definition preferredVoice :: "voice list \<Rightarrow> voice option" where
  "preferredVoice vs =
     (case vs of
        [] \<Rightarrow> None
      | v0 # _ \<Rightarrow>
          (case find (\<lambda>v. prefix ''en'' (lang v) \<and> localService v) vs of
             Some v \<Rightarrow> Some v
           | None \<Rightarrow>
               (case find (\<lambda>v. prefix ''en'' (lang v)) vs of
                  Some v \<Rightarrow> Some v
                | None \<Rightarrow> Some v0)))"

definition newUtterance :: "string \<Rightarrow> rat option \<Rightarrow> voice list \<Rightarrow> utterance" where
  "newUtterance words speed vs =
     \<lparr> spoken = words,
       rate = (case speed of None \<Rightarrow> 9 / 10 | Some s \<Rightarrow> if s = 0 then 9 / 10 else s),
       pitch = 1, volume = 1, voice = preferredVoice vs \<rparr>"

text \<open>
  \<open>speak\<close>, up to the point where it returns its promise. Without speech synthesis the
  async function returns, so its promise is resolved. Otherwise the promise is pending
  on the events of the new utterance; \<open>speechSynthesis.speak\<close> is called 50 ms later.
\<close>

definition speak :: "string \<Rightarrow> rat option \<Rightarrow> tts_world \<Rightarrow> promise \<times> tts_world" where
  "speak words speed w0 =
     (let w = (if \<not> isInitialized w0 then tts_initialize w0 else w0) in
      case speechSynthesis w of
        None \<Rightarrow> (Resolved, w\<lparr>toasts := toasts w @ [''Text-to-speech not supported in this browser'']\<rparr>)
      | Some synth \<Rightarrow>
          (case loadVoices w of
             Inl _ \<Rightarrow> (Resolved, w\<lparr>toasts := toasts w @ [''Text-to-speech failed'']\<rparr>)
           | Inr _ \<Rightarrow>
               (let u = newUtterance words speed (voices synth) in
                (Pending,
                 w\<lparr>currentUtterance := Some u,
                   speechSynthesis := Some (synth\<lparr>synth_calls := synth_calls synth @ [Cancel, Speak u]\<rparr>)\<rparr>))))"

text \<open>The handlers \<open>utterance.onend\<close> and \<open>utterance.onerror\<close> that \<open>speak\<close> installs.\<close>

definition onend :: "promise \<times> tts_world \<Rightarrow> promise \<times> tts_world" where
  "onend pw =
     (case pw of
        (p, w) \<Rightarrow> (resolve p, w\<lparr>currentUtterance := None, lastMethod := ''Web Speech API''\<rparr>))"

definition onerror :: "string \<Rightarrow> promise \<times> tts_world \<Rightarrow> promise \<times> tts_world" where
  "onerror cause pw =
     (case pw of
        (p, w) \<Rightarrow>
          (if cause = ''canceled'' then resolve p
           else reject (Error (''Speech synthesis error: '' @ cause)) p,
           w\<lparr>currentUtterance := None\<rparr>))"

definition stop :: "tts_world \<Rightarrow> js_exn + tts_world" where
  "stop w =
     (case currentUtterance w of
        None \<Rightarrow> Inr w
      | Some _ \<Rightarrow>
          (case speechSynthesis w of
             None \<Rightarrow> Inl (TypeError (''Cannot read properties of undefined (reading '' @ quoted ''cancel'' @ '')''))
           | Some synth \<Rightarrow>
               Inr (w\<lparr>speechSynthesis := Some (synth\<lparr>synth_calls := synth_calls synth @ [Cancel]\<rparr>),
                      currentUtterance := None\<rparr>)))"

definition isSpeaking :: "tts_world \<Rightarrow> js_exn + bool" where
  "isSpeaking w =
     (case currentUtterance w of
        None \<Rightarrow> Inr False
      | Some _ \<Rightarrow>
          (case speechSynthesis w of
             None \<Rightarrow> Inl (TypeError (''Cannot read properties of undefined (reading '' @ quoted ''speaking'' @ '')''))
           | Some synth \<Rightarrow> Inr (speaking synth)))"

section \<open>Runs and observations\<close>

text \<open>
  A process makes its calls of \<open>generateResponse\<close> one after the other on the one static
  field; each call meets the collaborators as they are at that time. \<open>initialize\<close>
  has no \<open>await\<close> in its body, so it reads and writes the field in one turn of the
  event loop, also when calls overlap.
\<close>

fun generateResponses ::
  "platform \<Rightarrow> ('c collaborators \<times> string \<times> gemini_direct_context) list \<Rightarrow> 'c service_state
     \<Rightarrow> (js_exn + string) list \<times> 'c service_state" where
  "generateResponses P [] st = ([], st)"
| "generateResponses P ((E, userInput, ctx) # calls) st =
     (case generateResponse P E userInput ctx st of
        (r, st1) \<Rightarrow> (case generateResponses P calls st1 of (rs, st2) \<Rightarrow> (r # rs, st2)))"

text \<open>The client instances a trace shows as constructed, and the clients it shows as called.\<close>

fun constructed :: "'c event \<Rightarrow> 'c option" where
  "constructed (NewGoogleGenerativeAI k (Inr c)) = Some c"
| "constructed _ = None"

definition instances :: "'c event list \<Rightarrow> 'c list" where
  "instances es = List.map_filter constructed es"

fun initEvent :: "'c event \<Rightarrow> bool" where
  "initEvent GetCurrentApiKey = True"
| "initEvent (NewGoogleGenerativeAI k r) = True"
| "initEvent _ = False"

fun usesClient :: "'c \<Rightarrow> 'c event \<Rightarrow> bool" where
  "usesClient c (GenerateContent c' params prompt) = (c' = c)"
| "usesClient c _ = True"

text \<open>The messages of a gateway call's payload.\<close>

definition payloadMessages :: "outbound \<Rightarrow> json list" where
  "payloadMessages call = (case own (payload call) ''messages'' of Some (JArr xs) \<Rightarrow> xs | _ \<Rightarrow> [])"

text \<open>
  The error envelope: status 500 and a JSON body whose member success is false and
  which has a member error.
\<close>

definition errorEnvelope :: "response \<Rightarrow> bool" where
  "errorEnvelope r =
     (status r = 500 \<and>
      (case body r of
         None \<Rightarrow> False
       | Some v \<Rightarrow> own v ''success'' = Some (JBool False) \<and> own v ''error'' \<noteq> None))"

text \<open>The error message of a response whose JSON body has a string member error.\<close>

definition errorText :: "response \<Rightarrow> string option" where
  "errorText r =
     (case body r of
        None \<Rightarrow> None
      | Some v \<Rightarrow> (case own v ''error'' of Some (JStr m) \<Rightarrow> Some m | _ \<Rightarrow> None))"

definition successFlag :: "response \<Rightarrow> json option" where
  "successFlag r = (case body r of None \<Rightarrow> None | Some v \<Rightarrow> own v ''success'')"

text \<open>A message mentions a phrase when it contains it, the case of ASCII letters aside.\<close>

definition ascii_lower :: "char \<Rightarrow> char" where
  "ascii_lower c =
     (case map_of (zip ''ABCDEFGHIJKLMNOPQRSTUVWXYZ'' ''abcdefghijklmnopqrstuvwxyz'') c of
        Some l \<Rightarrow> l
      | None \<Rightarrow> c)"

definition mentions :: "string \<Rightarrow> string \<Rightarrow> bool" where
  "mentions phrase msg = str_includes (map ascii_lower msg) phrase"

section \<open>Concrete inputs\<close>

text \<open>
  A platform for evaluation: the engine's functions on ASCII letters, ASCII white space,
  natural numbers and strings that need no escape. Then a small knowledge base, a
  history of seven messages, collaborators, and requests with twelve messages.
\<close>

definition ascii_space :: "char \<Rightarrow> bool" where
  "ascii_space c = (c \<in> set [CHR 0x09, CHR 0x0A, CHR 0x0B, CHR 0x0C, CHR 0x0D, CHR 0x20])"

definition ascii_trim :: "string \<Rightarrow> string" where
  "ascii_trim s = rev (dropWhile ascii_space (rev (dropWhile ascii_space s)))"

fun plainStringify :: "json \<Rightarrow> string" where
  "plainStringify JNull = ''null''"
| "plainStringify (JBool b) = (if b then ''true'' else ''false'')"
| "plainStringify (JNum q) = decimal (nat \<lfloor>q\<rfloor>)"
| "plainStringify (JStr s) = [CHR 0x22] @ s @ [CHR 0x22]"
| "plainStringify (JArr xs) = ''['' @ join '','' (map plainStringify xs) @ '']''"
| "plainStringify (JObj members) =
     ''{'' @ join '','' (map (\<lambda>(k, v). [CHR 0x22] @ k @ [CHR 0x22] @ '':'' @ plainStringify v) members) @ ''}''"

fun plainToString :: "json \<Rightarrow> string" where
  "plainToString JNull = ''null''"
| "plainToString (JBool b) = (if b then ''true'' else ''false'')"
| "plainToString (JNum q) = decimal (nat \<lfloor>q\<rfloor>)"
| "plainToString (JStr s) = s"
| "plainToString (JArr xs) = join '','' (map (\<lambda>x. if x = JNull then [] else plainToString x) xs)"
| "plainToString (JObj members) = ''[object Object]''"

definition asciiPlatform :: platform where
  "asciiPlatform =
     \<lparr> toLowerCase = map ascii_lower, trim = ascii_trim,
       numberToString = (\<lambda>q. decimal (nat \<lfloor>q\<rfloor>)),
       stringify = plainStringify, toStringValue = (\<lambda>v. Inr (plainToString v)) \<rparr>"

definition demoKnowledge :: "knowledge_entry list" where
  "demoKnowledge =
     [\<lparr> category = ''Mining'', topic = ''Hash rate'', content = ''Phones mine XMR.'' \<rparr>,
      \<lparr> category = ''Governance'', topic = ''Voting'', content = ''Members vote.'' \<rparr>,
      \<lparr> category = ''Security'', topic = ''Privacy'', content = ''Monero hides amounts.'' \<rparr>,
      \<lparr> category = ''mining'', topic = ''Pools'', content = ''Pools pay shares.'' \<rparr>,
      \<lparr> category = ''PRIVACY'', topic = ''Wallets'', content = ''Keys stay local.'' \<rparr>]"

definition demoInput :: string where
  "demoInput = ''Does MINING protect my privacy?''"

definition demoContext :: gemini_direct_context where
  "demoContext =
     \<lparr> userContext = None, miningStats = None,
       conversationHistory = Some \<lparr> recentMessages = Some
         [\<lparr> sender = ''user'', msg_content = ''one'' \<rparr>, \<lparr> sender = ''eliza'', msg_content = ''two'' \<rparr>,
          \<lparr> sender = ''user'', msg_content = ''three'' \<rparr>, \<lparr> sender = ''eliza'', msg_content = ''four'' \<rparr>,
          \<lparr> sender = ''user'', msg_content = ''five'' \<rparr>, \<lparr> sender = ''eliza'', msg_content = ''six'' \<rparr>,
          \<lparr> sender = ''user'', msg_content = ''seven'' \<rparr>] \<rparr>,
       systemVersion = None \<rparr>"

definition demoCollaborators :: "string option \<Rightarrow> string option \<Rightarrow> nat collaborators" where
  "demoCollaborators key reply =
     \<lparr> getCurrentApiKey = key, newGoogleGenerativeAI = (\<lambda>k. Inr (length k)),
       generateContent = (\<lambda>c params prompt. Inr reply), XMRT_KNOWLEDGE_BASE = demoKnowledge \<rparr>"

definition demoEnv :: "string option \<Rightarrow> js_exn + gateway_response \<Rightarrow> proxy_env" where
  "demoEnv key answer =
     \<lparr> LOVABLE_API_KEY = key, fetch = (\<lambda>call. answer), nowISO = ''2025-01-01T00:00:00.000Z'',
       geminiSystemPrompt = (\<lambda>history stats user. Inr ''You are Eliza, AI assistant for XMRT-DAO. Be conversational and helpful.'') \<rparr>"

definition gatewayAnswers :: "nat \<Rightarrow> js_exn + gateway_response" where
  "gatewayAnswers code = Inr \<lparr> gw_status = code, gw_text = Inr ''{}'', gw_json = Inr (JObj []) \<rparr>"

definition unreadable :: "nat \<Rightarrow> gateway_response" where
  "unreadable code =
     \<lparr> gw_status = code, gw_text = Inl (TypeError ''error reading a body from connection''),
       gw_json = Inl (TypeError ''error reading a body from connection'') \<rparr>"

definition post :: "json \<Rightarrow> request" where
  "post b = \<lparr> req_method = ''POST'', req_json = Inr b \<rparr>"

definition userSays :: "string \<Rightarrow> json" where
  "userSays words = JObj [(''role'', JStr ''user''), (''content'', JStr words)]"

definition demoMessages :: "json list" where
  "demoMessages =
     [userSays ''m1'', userSays ''m2'', userSays ''m3'', userSays ''m4'', userSays ''m5'', userSays ''m6'',
      userSays ''m7'', userSays ''m8'', userSays ''m9'', userSays ''m10'', userSays ''m11'',
      JObj [(''role'', JStr ''user''), (''content'', JNum 12), (''id'', JNum 7)]]"

definition demoBody :: json where
  "demoBody = JObj [(''messages'', JArr demoMessages)]"

definition demoGeminiCall :: outbound where
  "demoGeminiCall =
     gatewayCall ''key''
       (JObj [(''model'', JStr ''google/gemini-2.5-pro''),
              (''messages'',
                 JArr (systemMessage ''You are Eliza, AI assistant for XMRT-DAO. Be conversational and helpful.''
                         # slice_last 10 demoMessages)),
              (''stream'', JBool False)])"

definition demoDeepseekCall :: outbound where
  "demoDeepseekCall =
     gatewayCall ''key''
       (JObj [(''model'', JStr ''google/gemini-2.5-flash''),
              (''messages'',
                 JArr [systemMessage ''You are Eliza, an AI assistant for XMRT-DAO.'',
                       userSays ''m10'', userSays ''m11'',
                       JObj [(''role'', JStr ''user''), (''content'', JStr ''12'')]]),
              (''stream'', JBool False)])"

definition demoOpenaiCall :: outbound where
  "demoOpenaiCall =
     gatewayCall ''key''
       (JObj [(''model'', JStr ''openai/gpt-5-mini''),
              (''messages'', JArr demoMessages),
              (''temperature'', JNum (9 / 10)),
              (''max_tokens'', JNum 8000),
              (''stream'', JBool False)])"

definition unparsable :: request where
  "unparsable = \<lparr> req_method = ''POST'', req_json = Inl (SyntaxError ''Unexpected end of JSON input'') \<rparr>"

definition demoSynth :: speech_synthesis where
  "demoSynth =
     \<lparr> voices =
         [\<lparr> voice_name = ''Google Deutsch'', lang = ''de-DE'', localService = False \<rparr>,
          \<lparr> voice_name = ''Google US English'', lang = ''en-US'', localService = False \<rparr>,
          \<lparr> voice_name = ''Samantha'', lang = ''en-US'', localService = True \<rparr>],
       speaking = False, synth_calls = [] \<rparr>"

section \<open>Properties of the Direct Assistant Client\<close>

lemma str_includes_iff: "str_includes hay needle \<longleftrightarrow> (\<exists>before after. hay = before @ needle @ after)"
  by (simp add: str_includes_def sublist_def)

lemma relevantKnowledge_length: "length (relevantKnowledge P kb userInput) \<le> 3"
  by (simp add: relevantKnowledge_def slice_first_def)

lemma relevantKnowledge_matches:
  "k \<in> set (relevantKnowledge P kb userInput) \<Longrightarrow> k \<in> set kb \<and> matchesInput P userInput k"
  by (auto simp: relevantKnowledge_def slice_first_def dest: in_set_takeD)

text \<open>
  Claim C1. For every user input, the knowledge-base filter returns at most 3 entries,
  each an entry of the knowledge base whose lower-cased category or lower-cased topic
  occurs as a contiguous substring of the lower-cased user input.
\<close>

theorem knowledge_filter_at_most_three_matching:
  "length (relevantKnowledge P kb userInput) \<le> 3 \<and>
   (\<forall>k \<in> set (relevantKnowledge P kb userInput).
      k \<in> set kb \<and>
      ((\<exists>before after. toLowerCase P userInput = before @ toLowerCase P (category k) @ after) \<or>
       (\<exists>before after. toLowerCase P userInput = before @ toLowerCase P (topic k) @ after)))"
proof (intro conjI ballI)
  show "length (relevantKnowledge P kb userInput) \<le> 3"
    by (rule relevantKnowledge_length)
next
  fix k assume "k \<in> set (relevantKnowledge P kb userInput)"
  then show "k \<in> set kb" by (simp add: relevantKnowledge_matches)
next
  fix k assume "k \<in> set (relevantKnowledge P kb userInput)"
  then have "matchesInput P userInput k" by (simp add: relevantKnowledge_matches)
  then show "(\<exists>before after. toLowerCase P userInput = before @ toLowerCase P (category k) @ after) \<or>
       (\<exists>before after. toLowerCase P userInput = before @ toLowerCase P (topic k) @ after)"
    by (simp add: matchesInput_def str_includes_iff)
qed

lemma demo_relevant:
  "relevantKnowledge asciiPlatform demoKnowledge demoInput =
     [\<lparr> category = ''Mining'', topic = ''Hash rate'', content = ''Phones mine XMR.'' \<rparr>,
      \<lparr> category = ''Security'', topic = ''Privacy'', content = ''Monero hides amounts.'' \<rparr>,
      \<lparr> category = ''mining'', topic = ''Pools'', content = ''Pools pay shares.'' \<rparr>]"
  by code_simp

theorem knowledge_filter_witness:
  "length (relevantKnowledge asciiPlatform demoKnowledge demoInput) \<le> 3 \<and>
   \<lparr> category = ''Security'', topic = ''Privacy'', content = ''Monero hides amounts.'' \<rparr>
      \<in> set (relevantKnowledge asciiPlatform demoKnowledge demoInput) \<and>
   ((\<exists>before after. toLowerCase asciiPlatform demoInput = before @ toLowerCase asciiPlatform ''Security'' @ after) \<or>
    (\<exists>before after. toLowerCase asciiPlatform demoInput = before @ toLowerCase asciiPlatform ''Privacy'' @ after))"
proof -
  let ?k = "\<lparr> category = ''Security'', topic = ''Privacy'', content = ''Monero hides amounts.'' \<rparr>"
  have m: "?k \<in> set (relevantKnowledge asciiPlatform demoKnowledge demoInput)"
    by (simp add: demo_relevant)
  note T = knowledge_filter_at_most_three_matching [of asciiPlatform demoKnowledge demoInput]
  from T have len: "length (relevantKnowledge asciiPlatform demoKnowledge demoInput) \<le> 3"
    by (rule conjunct1)
  from T [THEN conjunct2] m
  have "?k \<in> set demoKnowledge \<and>
      ((\<exists>before after. toLowerCase asciiPlatform demoInput = before @ toLowerCase asciiPlatform (category ?k) @ after) \<or>
       (\<exists>before after. toLowerCase asciiPlatform demoInput = before @ toLowerCase asciiPlatform (topic ?k) @ after))"
    by (rule bspec)
  with len m show ?thesis by simp
qed

lemma slice_last_length: "length (slice_last n xs) \<le> n"
  by (simp add: slice_last_def)

lemma slice_last_suffix: "suffix (slice_last n xs) xs"
  by (simp add: slice_last_def suffix_drop)

lemma rethrow_empty: "rethrow (Error ''Empty response from Gemini'') = Error ''Empty response from Gemini''"
  by (simp add: rethrow_def str_includes_def sublist_code)

lemma initialize_memoized: "genAI st = Some c \<Longrightarrow> initialize E st = (True, st)"
  by (simp add: initialize_def)

lemma initialize_no_key:
  "genAI st = None \<Longrightarrow> getCurrentApiKey E = None \<Longrightarrow> initialize E st = (False, record_event GetCurrentApiKey st)"
  by (simp add: initialize_def)

lemma genAI_record_event: "genAI (record_event e st) = genAI st"
  by (simp add: record_event_def)

lemma events_record_event: "events (record_event e st) = events st @ [e]"
  by (simp add: record_event_def)

lemma generateTry_genAI: "genAI (snd (generateTry P E u ctx c st)) = genAI st"
  by (simp add: generateTry_def Let_def genAI_record_event split: sum.splits option.splits)

lemma generateTry_events:
  "\<exists>rest. events (snd (generateTry P E u ctx c st)) =
      events st @ GenerateContent c geminiParams (fullPrompt P (XMRT_KNOWLEDGE_BASE E) u ctx) # rest
      \<and> set rest \<subseteq> {MarkKeyAsWorking}"
  by (simp add: generateTry_def Let_def events_record_event split: sum.splits option.splits)

text \<open>
  Claim C7. When no API key is configured (the key provider answers null and no client
  has been memoized), \<open>generateResponse\<close> throws the error of the unavailable
  service; the only call it makes is the read of the key, so no model call is made, and
  no client is memoized.
\<close>

theorem no_key_no_model_call:
  "genAI st = None \<and> getCurrentApiKey E = None \<longrightarrow>
     generateResponse P E userInput ctx st =
       (Inl (Error ''Gemini Direct Service not available - no API key''), record_event GetCurrentApiKey st)
     \<and> events (snd (generateResponse P E userInput ctx st)) = events st @ [GetCurrentApiKey]
     \<and> genAI (snd (generateResponse P E userInput ctx st)) = None"
  by (simp add: generateResponse_def initialize_no_key genAI_record_event events_record_event)

theorem no_key_witness:
  "genAI (initial_state :: nat service_state) = None \<and>
   getCurrentApiKey (demoCollaborators None (Some ''hi'')) = None \<and>
   generateResponse asciiPlatform (demoCollaborators None (Some ''hi'')) demoInput demoContext initial_state =
     (Inl (Error ''Gemini Direct Service not available - no API key''),
      \<lparr> genAI = None, events = [GetCurrentApiKey] \<rparr>)"
  using no_key_no_model_call [of "initial_state :: nat service_state" "demoCollaborators None (Some ''hi'')"
      asciiPlatform demoInput demoContext]
  by (simp add: initial_state_def demoCollaborators_def record_event_def)

lemma generateResponse_memoized:
  "genAI st = Some c \<Longrightarrow>
     generateResponse P E u ctx st =
       (case generateTry P E u ctx c st of (Inl e, st2) \<Rightarrow> (Inl (rethrow e), st2) | (Inr t, st2) \<Rightarrow> (Inr t, st2))"
  by (simp add: generateResponse_def initialize_memoized)

lemma generateResponse_memoized_state:
  "genAI st = Some c \<Longrightarrow> snd (generateResponse P E u ctx st) = snd (generateTry P E u ctx c st)"
  by (simp add: generateResponse_memoized split: prod.splits sum.splits)


lemma generateTry_never_empty: "fst (generateTry P E u ctx c st) \<noteq> Inr []"
  by (simp add: generateTry_def Let_def split: sum.splits option.splits)

lemma generateResponse_never_empty: "fst (generateResponse P E u ctx st) \<noteq> Inr []"
proof (cases "initialize E st")
  case (Pair initialized st1)
  show ?thesis
  proof (cases "genAI st1")
    case None
    with Pair show ?thesis by (simp add: generateResponse_def)
  next
    case (Some c)
    show ?thesis
    proof (cases "generateTry P E u ctx c st1")
      case (Pair r st2)
      with generateTry_never_empty [of P E u ctx c st1] have "r \<noteq> Inr []" by simp
      with Pair Some \<open>initialize E st = (initialized, st1)\<close> show ?thesis
        by (auto simp: generateResponse_def split: sum.splits)
    qed
  qed
qed

lemma generateResponse_reaches_model:
  "initialize E st = (True, st1) \<Longrightarrow> genAI st1 = Some c \<Longrightarrow>
     generateResponse P E u ctx st =
       (case generateTry P E u ctx c st1 of (Inl e, st2) \<Rightarrow> (Inl (rethrow e), st2) | (Inr t, st2) \<Rightarrow> (Inr t, st2))"
  by (simp add: generateResponse_def)

text \<open>
  Claim C5. \<open>generateResponse\<close> never returns the empty string. When the call reaches
  the model and the text of the answer is absent, empty, or trims to the empty string,
  it throws the error of the empty response and does not report the key. When the text
  is not empty and does not trim to the empty string, it reports the key as working
  and returns the trimmed text.
\<close>

theorem empty_text_throws_nonempty_returns_trimmed:
  "fst (generateResponse P E userInput ctx st) \<noteq> Inr [] \<and>
   (initialize E st = (True, st1) \<and> genAI st1 = Some c \<and>
    generateContent E c geminiParams (fullPrompt P (XMRT_KNOWLEDGE_BASE E) userInput ctx) = Inr t \<longrightarrow>
      ((t = None \<or> t = Some [] \<or> (\<exists>s. t = Some s \<and> trim P s = [])) \<longrightarrow>
         generateResponse P E userInput ctx st =
           (Inl (Error ''Empty response from Gemini''),
            record_event (GenerateContent c geminiParams (fullPrompt P (XMRT_KNOWLEDGE_BASE E) userInput ctx)) st1)) \<and>
      (\<forall>s. t = Some s \<and> s \<noteq> [] \<and> trim P s \<noteq> [] \<longrightarrow>
         generateResponse P E userInput ctx st =
           (Inr (trim P s),
            record_event MarkKeyAsWorking
              (record_event (GenerateContent c geminiParams (fullPrompt P (XMRT_KNOWLEDGE_BASE E) userInput ctx)) st1))))"
proof (intro conjI impI allI)
  show "fst (generateResponse P E userInput ctx st) \<noteq> Inr []"
    by (rule generateResponse_never_empty)
next
  assume reach: "initialize E st = (True, st1) \<and> genAI st1 = Some c \<and>
    generateContent E c geminiParams (fullPrompt P (XMRT_KNOWLEDGE_BASE E) userInput ctx) = Inr t"
    and empty: "t = None \<or> t = Some [] \<or> (\<exists>s. t = Some s \<and> trim P s = [])"
  from reach empty
  have "generateTry P E userInput ctx c st1 =
          (Inl (Error ''Empty response from Gemini''),
           record_event (GenerateContent c geminiParams (fullPrompt P (XMRT_KNOWLEDGE_BASE E) userInput ctx)) st1)"
    by (auto simp: generateTry_def Let_def)
  with reach show "generateResponse P E userInput ctx st =
           (Inl (Error ''Empty response from Gemini''),
            record_event (GenerateContent c geminiParams (fullPrompt P (XMRT_KNOWLEDGE_BASE E) userInput ctx)) st1)"
    by (simp add: generateResponse_reaches_model rethrow_empty)
next
  fix s
  assume reach: "initialize E st = (True, st1) \<and> genAI st1 = Some c \<and>
    generateContent E c geminiParams (fullPrompt P (XMRT_KNOWLEDGE_BASE E) userInput ctx) = Inr t"
    and nonempty: "t = Some s \<and> s \<noteq> [] \<and> trim P s \<noteq> []"
  from reach nonempty
  have "generateTry P E userInput ctx c st1 =
          (Inr (trim P s),
            record_event MarkKeyAsWorking
              (record_event (GenerateContent c geminiParams (fullPrompt P (XMRT_KNOWLEDGE_BASE E) userInput ctx)) st1))"
    by (auto simp: generateTry_def Let_def)
  with reach show "generateResponse P E userInput ctx st =
           (Inr (trim P s),
            record_event MarkKeyAsWorking
              (record_event (GenerateContent c geminiParams (fullPrompt P (XMRT_KNOWLEDGE_BASE E) userInput ctx)) st1))"
    by (simp add: generateResponse_reaches_model)
qed

lemma demo_initialize:
  "initialize (demoCollaborators (Some ''key'') reply) initial_state =
     (True, \<lparr> genAI = Some 3, events = [GetCurrentApiKey, NewGoogleGenerativeAI ''key'' (Inr 3)] \<rparr>)"
  by (simp add: initialize_def demoCollaborators_def initial_state_def record_event_def Let_def)

theorem empty_text_witness:
  "fst (generateResponse asciiPlatform (demoCollaborators (Some ''key'') (Some ''   '')) demoInput demoContext
          initial_state) = Inl (Error ''Empty response from Gemini'') \<and>
   fst (generateResponse asciiPlatform (demoCollaborators (Some ''key'') None) demoInput demoContext
          initial_state) = Inl (Error ''Empty response from Gemini'') \<and>
   fst (generateResponse asciiPlatform (demoCollaborators (Some ''key'') (Some '' Mining pays. '')) demoInput
          demoContext initial_state) = Inr ''Mining pays.'' \<and>
   MarkKeyAsWorking \<in> set (events (snd (generateResponse asciiPlatform
          (demoCollaborators (Some ''key'') (Some '' Mining pays. '')) demoInput demoContext initial_state)))"
proof -
  let ?st1 = "\<lparr> genAI = Some (3::nat), events = [GetCurrentApiKey, NewGoogleGenerativeAI ''key'' (Inr 3)] \<rparr>"
  have blank: "trim asciiPlatform ''   '' = []"
    by (simp add: asciiPlatform_def ascii_trim_def ascii_space_def)
  have words: "trim asciiPlatform '' Mining pays. '' = ''Mining pays.''"
    by (simp add: asciiPlatform_def ascii_trim_def ascii_space_def)
  have a: "fst (generateResponse asciiPlatform (demoCollaborators (Some ''key'') (Some ''   '')) demoInput
          demoContext initial_state) = Inl (Error ''Empty response from Gemini'')"
    using empty_text_throws_nonempty_returns_trimmed
      [of asciiPlatform "demoCollaborators (Some ''key'') (Some ''   '')" demoInput demoContext
          initial_state ?st1 3 "Some ''   ''"]
      demo_initialize [of "Some ''   ''"] blank
    by (simp add: demoCollaborators_def)
  have b: "fst (generateResponse asciiPlatform (demoCollaborators (Some ''key'') None) demoInput
          demoContext initial_state) = Inl (Error ''Empty response from Gemini'')"
    using empty_text_throws_nonempty_returns_trimmed
      [of asciiPlatform "demoCollaborators (Some ''key'') None" demoInput demoContext
          initial_state ?st1 3 None]
      demo_initialize [of None]
    by (simp add: demoCollaborators_def)
  have c: "generateResponse asciiPlatform (demoCollaborators (Some ''key'') (Some '' Mining pays. '')) demoInput
          demoContext initial_state =
        (Inr ''Mining pays.'',
         record_event MarkKeyAsWorking
           (record_event (GenerateContent 3 geminiParams
              (fullPrompt asciiPlatform
                 (XMRT_KNOWLEDGE_BASE (demoCollaborators (Some ''key'') (Some '' Mining pays. ''))) demoInput demoContext))
              ?st1))"
    using empty_text_throws_nonempty_returns_trimmed
      [of asciiPlatform "demoCollaborators (Some ''key'') (Some '' Mining pays. '')" demoInput demoContext
          initial_state ?st1 3 "Some '' Mining pays. ''"]
      demo_initialize [of "Some '' Mining pays. ''"] words
    by (simp add: demoCollaborators_def)
  from a b c show ?thesis by (simp add: record_event_def)
qed

lemma generateResponse_memoized_keeps:
  assumes "genAI st = Some c"
  shows "genAI (snd (generateResponse P E u ctx st)) = Some c \<and>
         (\<exists>new. events (snd (generateResponse P E u ctx st)) = events st @ new \<and>
                (\<forall>e \<in> set new. \<not> initEvent e \<and> usesClient c e))"
proof -
  have s: "snd (generateResponse P E u ctx st) = snd (generateTry P E u ctx c st)"
    using assms by (rule generateResponse_memoized_state)
  obtain rest where r: "events (snd (generateTry P E u ctx c st)) =
      events st @ GenerateContent c geminiParams (fullPrompt P (XMRT_KNOWLEDGE_BASE E) u ctx) # rest"
      "set rest \<subseteq> {MarkKeyAsWorking}"
    using generateTry_events [of P E u ctx c st] by blast
  have "\<forall>e \<in> set (GenerateContent c geminiParams (fullPrompt P (XMRT_KNOWLEDGE_BASE E) u ctx) # rest).
          \<not> initEvent e \<and> usesClient c e"
    using r(2) by auto
  with s r(1) assms show ?thesis
    by (metis generateTry_genAI)
qed

lemma generateResponses_memoized_keeps:
  "genAI st = Some c \<Longrightarrow>
     genAI (snd (generateResponses P calls st)) = Some c \<and>
     (\<exists>new. events (snd (generateResponses P calls st)) = events st @ new \<and>
            (\<forall>e \<in> set new. \<not> initEvent e \<and> usesClient c e))"
proof (induction calls arbitrary: st)
  case Nil
  then show ?case by simp
next
  case (Cons call calls)
  obtain E u ctx where call: "call = (E, u, ctx)" by (cases call) auto
  obtain r st1 where step: "generateResponse P E u ctx st = (r, st1)" by (cases "generateResponse P E u ctx st") auto
  from generateResponse_memoized_keeps [OF Cons.prems, of P E u ctx] step
  obtain new1 where g1: "genAI st1 = Some c" and e1: "events st1 = events st @ new1"
    and n1: "\<forall>e \<in> set new1. \<not> initEvent e \<and> usesClient c e" by auto
  from Cons.IH [OF g1]
  obtain new2 where g2: "genAI (snd (generateResponses P calls st1)) = Some c"
    and e2: "events (snd (generateResponses P calls st1)) = events st1 @ new2"
    and n2: "\<forall>e \<in> set new2. \<not> initEvent e \<and> usesClient c e" by auto
  have s: "snd (generateResponses P (call # calls) st) = snd (generateResponses P calls st1)"
    using call step by (simp split: prod.splits)
  have "events (snd (generateResponses P calls st1)) = events st @ (new1 @ new2)"
    using e1 e2 by simp
  moreover have "\<forall>e \<in> set (new1 @ new2). \<not> initEvent e \<and> usesClient c e"
    using n1 n2 by auto
  ultimately show ?case using s g2 by metis
qed


lemma instances_append: "instances (es @ es') = instances es @ instances es'"
  by (simp add: instances_def List.map_filter_def)

lemma instances_Nil: "instances [] = []"
  by (simp add: instances_def List.map_filter_def)

lemma instances_Cons:
  "instances (e # es) = (case constructed e of None \<Rightarrow> instances es | Some c \<Rightarrow> c # instances es)"
  by (simp add: instances_def List.map_filter_def split: option.splits)

lemma initialize_instances:
  assumes "instances (events st) = (case genAI st of None \<Rightarrow> [] | Some c \<Rightarrow> [c])"
  shows "instances (events (snd (initialize E st))) =
           (case genAI (snd (initialize E st)) of None \<Rightarrow> [] | Some c \<Rightarrow> [c])"
  using assms
  by (auto simp: initialize_def Let_def record_event_def instances_append instances_Cons instances_Nil
      split: option.splits sum.splits)

lemma generateTry_instances:
  "instances (events (snd (generateTry P E u ctx c st))) = instances (events st)"
  by (auto simp: generateTry_def Let_def events_record_event instances_append instances_Cons instances_Nil
      split: option.splits sum.splits)



lemma generateResponse_state:
  "snd (generateResponse P E u ctx st) = snd (initialize E st) \<or>
   (\<exists>c. genAI (snd (initialize E st)) = Some c \<and>
        snd (generateResponse P E u ctx st) = snd (generateTry P E u ctx c (snd (initialize E st))))"
proof (cases "initialize E st")
  case (Pair initialized st1)
  show ?thesis
  proof (cases "genAI st1")
    case None
    with Pair show ?thesis by (simp add: generateResponse_def)
  next
    case (Some c)
    show ?thesis
    proof (cases "generateTry P E u ctx c st1")
      case (Pair r st2)
      with Some \<open>initialize E st = (initialized, st1)\<close> show ?thesis
        by (cases r) (simp_all add: generateResponse_def)
    qed
  qed
qed

lemma generateResponse_instances:
  assumes "instances (events st) = (case genAI st of None \<Rightarrow> [] | Some c \<Rightarrow> [c])"
  shows "instances (events (snd (generateResponse P E u ctx st))) =
           (case genAI (snd (generateResponse P E u ctx st)) of None \<Rightarrow> [] | Some c \<Rightarrow> [c])"
proof -
  let ?st1 = "snd (initialize E st)"
  have inv1: "instances (events ?st1) = (case genAI ?st1 of None \<Rightarrow> [] | Some c \<Rightarrow> [c])"
    by (rule initialize_instances [OF assms])
  from generateResponse_state [of P E u ctx st] show ?thesis
  proof
    assume "snd (generateResponse P E u ctx st) = ?st1"
    with inv1 show ?thesis by simp
  next
    assume "\<exists>c. genAI ?st1 = Some c \<and>
        snd (generateResponse P E u ctx st) = snd (generateTry P E u ctx c ?st1)"
    then obtain c where c: "genAI ?st1 = Some c"
      and s: "snd (generateResponse P E u ctx st) = snd (generateTry P E u ctx c ?st1)" by blast
    show ?thesis
      unfolding s using inv1 by (simp only: generateTry_instances generateTry_genAI)
  qed
qed

lemma generateResponses_instances:
  "instances (events st) = (case genAI st of None \<Rightarrow> [] | Some c \<Rightarrow> [c]) \<Longrightarrow>
   instances (events (snd (generateResponses P calls st))) =
     (case genAI (snd (generateResponses P calls st)) of None \<Rightarrow> [] | Some c \<Rightarrow> [c])"
proof (induction calls arbitrary: st)
  case Nil
  then show ?case by simp
next
  case (Cons call calls)
  obtain E u ctx where call: "call = (E, u, ctx)" by (cases call) auto
  have s: "snd (generateResponses P (call # calls) st) =
           snd (generateResponses P calls (snd (generateResponse P E u ctx st)))"
    using call by (simp split: prod.splits)
  show ?case
    unfolding s by (rule Cons.IH) (rule generateResponse_instances [OF Cons.prems])
qed

text \<open>
  Claim C9. In every run of calls from the initial state the trace shows at most one
  client instance constructed. Once a client is memoized, every later call leaves that
  same instance in the static field, and none of the calls it adds to the trace is a
  read of the key or a construction: each model call it adds is made on that instance.
\<close>

theorem client_memoized_once:
  "length (instances (events (snd (generateResponses P calls initial_state)))) \<le> 1 \<and>
   (genAI st = Some c \<longrightarrow>
      genAI (snd (generateResponses P calls st)) = Some c \<and>
      (\<exists>new. events (snd (generateResponses P calls st)) = events st @ new \<and>
             (\<forall>e \<in> set new. \<not> initEvent e \<and> usesClient c e)))"
proof (intro conjI impI)
  have "instances (events (initial_state :: 'a service_state)) =
          (case genAI (initial_state :: 'a service_state) of None \<Rightarrow> [] | Some c \<Rightarrow> [c])"
    by (simp add: initial_state_def instances_def List.map_filter_def)
  from generateResponses_instances [OF this, of P calls]
  show "length (instances (events (snd (generateResponses P calls initial_state)))) \<le> 1"
    by (simp split: option.splits)
next
  assume "genAI st = Some c"
  then show "genAI (snd (generateResponses P calls st)) = Some c"
    by (rule generateResponses_memoized_keeps [THEN conjunct1])
next
  assume "genAI st = Some c"
  then show "\<exists>new. events (snd (generateResponses P calls st)) = events st @ new \<and>
             (\<forall>e \<in> set new. \<not> initEvent e \<and> usesClient c e)"
    by (rule generateResponses_memoized_keeps [THEN conjunct2])
qed

theorem client_memoized_witness:
  "genAI \<lparr> genAI = Some (3::nat), events = [] \<rparr> = Some 3 \<and>
   length (instances (events (snd (generateResponses asciiPlatform
      [(demoCollaborators None (Some ''a''), demoInput, demoContext),
       (demoCollaborators (Some ''other key'') (Some ''b''), demoInput, demoContext)]
      (initial_state :: nat service_state))))) \<le> 1 \<and>
   genAI (snd (generateResponses asciiPlatform
      [(demoCollaborators None (Some ''a''), demoInput, demoContext),
       (demoCollaborators (Some ''other key'') (Some ''b''), demoInput, demoContext)]
      \<lparr> genAI = Some 3, events = [] \<rparr>)) = Some 3 \<and>
   events (snd (generateResponses asciiPlatform
      [(demoCollaborators None (Some ''a''), demoInput, demoContext),
       (demoCollaborators (Some ''other key'') (Some ''b''), demoInput, demoContext)]
      \<lparr> genAI = Some 3, events = [] \<rparr>)) =
     [GenerateContent 3 geminiParams (fullPrompt asciiPlatform demoKnowledge demoInput demoContext),
      MarkKeyAsWorking,
      GenerateContent 3 geminiParams (fullPrompt asciiPlatform demoKnowledge demoInput demoContext),
      MarkKeyAsWorking]"
proof -
  let ?calls = "[(demoCollaborators None (Some ''a''), demoInput, demoContext),
       (demoCollaborators (Some ''other key'') (Some ''b''), demoInput, demoContext)]"
  let ?st = "\<lparr> genAI = Some (3::nat), events = [] \<rparr>"
  note T = client_memoized_once [of asciiPlatform ?calls ?st 3]
  have ev: "events (snd (generateResponses asciiPlatform ?calls ?st)) =
     [GenerateContent 3 geminiParams (fullPrompt asciiPlatform demoKnowledge demoInput demoContext),
      MarkKeyAsWorking,
      GenerateContent 3 geminiParams (fullPrompt asciiPlatform demoKnowledge demoInput demoContext),
      MarkKeyAsWorking]"
    by (simp add: generateResponse_def initialize_def generateTry_def Let_def record_event_def
        demoCollaborators_def asciiPlatform_def ascii_trim_def ascii_space_def)
  from T ev show ?thesis by simp
qed

section \<open>Properties of the edge proxies\<close>

lemma viaGateway_calls: "snd (viaGateway env prepared answer) = (case prepared of Inl e \<Rightarrow> [] | Inr call \<Rightarrow> [call])"
  by (simp add: viaGateway_def split: sum.splits)

lemma viaGateway_not_prepared: "prepared = Inl e \<Longrightarrow> viaGateway env prepared answer = (Inl e, [])"
  by (simp add: viaGateway_def)

lemma object_two:
  "object [(k1, Some v1), (k2, Some v2)] = JObj [(k1, v1), (k2, v2)]"
  by (simp add: object_def List.map_filter_def)

lemma object_three:
  "object [(k1, Some v1), (k2, Some v2), (k3, Some v3)] = JObj [(k1, v1), (k2, v2), (k3, v3)]"
  by (simp add: object_def List.map_filter_def)

lemma lovableAnswer_429:
  "gw_text r = Inr t \<Longrightarrow> gw_status r = 429 \<Longrightarrow>
   lovableAnswer r = Inr (jsonResponse 429 (JObj [(''success'', JBool False), (''error'', JStr rateLimitMessage)]))"
  by (simp add: lovableAnswer_def ok_def object_two)

lemma lovableAnswer_402:
  "gw_text r = Inr t \<Longrightarrow> gw_status r = 402 \<Longrightarrow>
   lovableAnswer r = Inr (jsonResponse 402 (JObj [(''success'', JBool False), (''error'', JStr creditsMessage)]))"
  by (simp add: lovableAnswer_def ok_def object_two)

lemma lovableAnswer_failure:
  "\<not> ok r \<Longrightarrow> gw_status r \<noteq> 429 \<Longrightarrow> gw_status r \<noteq> 402 \<Longrightarrow> \<exists>e. lovableAnswer r = Inl e"
  by (simp add: lovableAnswer_def split: sum.splits)

lemma openaiChatAnswer_429:
  "gw_status r = 429 \<Longrightarrow>
   openaiChatAnswer P r =
     Inr (jsonResponse 429
       (JObj [(''success'', JBool False), (''error'', JStr ''Rate limit exceeded, please try again later'')]))"
  by (simp add: openaiChatAnswer_def ok_def object_two)

lemma openaiChatAnswer_402:
  "gw_status r = 402 \<Longrightarrow>
   openaiChatAnswer P r =
     Inr (jsonResponse 402
       (JObj [(''success'', JBool False),
              (''error'', JStr ''Payment required, please add credits to your workspace'')]))"
  by (simp add: openaiChatAnswer_def ok_def object_two)

lemma openaiChatAnswer_failure:
  "\<not> ok r \<Longrightarrow> gw_status r \<noteq> 429 \<Longrightarrow> gw_status r \<noteq> 402 \<Longrightarrow> \<exists>e. openaiChatAnswer P r = Inl e"
  by (simp add: openaiChatAnswer_def split: sum.splits json.splits)

lemma geminiChat_called:
  assumes "snd (geminiChat env req) = [call]"
  shows "req_method req \<noteq> ''OPTIONS'' \<and> geminiChatPrepare env req = Inr call \<and>
         fst (geminiChat env req) =
           (case fetch env call of
              Inl e \<Rightarrow> geminiChatCatch env e
            | Inr r \<Rightarrow> (case lovableAnswer r of Inl e \<Rightarrow> geminiChatCatch env e | Inr resp \<Rightarrow> resp))"
proof -
  from assms have m: "req_method req \<noteq> ''OPTIONS''"
    by (auto simp: geminiChat_def)
  with assms have c: "snd (geminiChatTry env req) = [call]"
    by (auto simp: geminiChat_def split: prod.splits sum.splits)
  then have p: "geminiChatPrepare env req = Inr call"
    by (simp add: geminiChatTry_def viaGateway_calls split: sum.splits)
  then have "geminiChatTry env req = (case fetch env call of Inl e \<Rightarrow> Inl e | Inr r \<Rightarrow> lovableAnswer r, [call])"
    by (simp add: geminiChatTry_def viaGateway_def split: sum.splits)
  with m p show ?thesis
    by (simp add: geminiChat_def split: sum.splits)
qed

lemma deepseekChat_called:
  assumes "snd (deepseekChat P env req) = [call]"
  shows "req_method req \<noteq> ''OPTIONS'' \<and> deepseekChatPrepare P env req = Inr call \<and>
         fst (deepseekChat P env req) =
           (case fetch env call of
              Inl e \<Rightarrow> deepseekChatCatch e
            | Inr r \<Rightarrow> (case lovableAnswer r of Inl e \<Rightarrow> deepseekChatCatch e | Inr resp \<Rightarrow> resp))"
proof -
  from assms have m: "req_method req \<noteq> ''OPTIONS''"
    by (auto simp: deepseekChat_def)
  with assms have c: "snd (deepseekChatTry P env req) = [call]"
    by (auto simp: deepseekChat_def split: prod.splits sum.splits)
  then have p: "deepseekChatPrepare P env req = Inr call"
    by (simp add: deepseekChatTry_def viaGateway_calls split: sum.splits)
  then have "deepseekChatTry P env req = (case fetch env call of Inl e \<Rightarrow> Inl e | Inr r \<Rightarrow> lovableAnswer r, [call])"
    by (simp add: deepseekChatTry_def viaGateway_def split: sum.splits)
  with m p show ?thesis
    by (simp add: deepseekChat_def split: sum.splits)
qed

lemma openaiChat_called:
  assumes "snd (openaiChat P env req) = [call]"
  shows "req_method req \<noteq> ''OPTIONS'' \<and> openaiChatPrepare env req = Inr call \<and>
         fst (openaiChat P env req) =
           (case fetch env call of
              Inl e \<Rightarrow> openaiChatCatch e
            | Inr r \<Rightarrow> (case openaiChatAnswer P r of Inl e \<Rightarrow> openaiChatCatch e | Inr resp \<Rightarrow> resp))"
proof -
  from assms have m: "req_method req \<noteq> ''OPTIONS''"
    by (auto simp: openaiChat_def)
  with assms have c: "snd (openaiChatTry P env req) = [call]"
    by (auto simp: openaiChat_def split: prod.splits sum.splits)
  then have p: "openaiChatPrepare env req = Inr call"
    by (simp add: openaiChatTry_def viaGateway_calls split: sum.splits)
  then have "openaiChatTry P env req = (case fetch env call of Inl e \<Rightarrow> Inl e | Inr r \<Rightarrow> openaiChatAnswer P r, [call])"
    by (simp add: openaiChatTry_def viaGateway_def split: sum.splits)
  with m p show ?thesis
    by (simp add: openaiChat_def split: sum.splits)
qed

lemma status_jsonResponse: "status (jsonResponse code v) = code"
  by (simp add: jsonResponse_def)

lemma errorEnvelope_geminiChatCatch: "errorEnvelope (geminiChatCatch env e)"
  by (simp add: errorEnvelope_def geminiChatCatch_def jsonResponse_def object_def List.map_filter_def lookup_def)

lemma errorEnvelope_deepseekChatCatch: "errorEnvelope (deepseekChatCatch e)"
  by (simp add: errorEnvelope_def deepseekChatCatch_def jsonResponse_def object_def List.map_filter_def lookup_def)

lemma errorEnvelope_openaiChatCatch: "errorEnvelope (openaiChatCatch e)"
  by (simp add: errorEnvelope_def openaiChatCatch_def jsonResponse_def object_def List.map_filter_def lookup_def)

lemma geminiChat_throws:
  "req_method req \<noteq> ''OPTIONS'' \<Longrightarrow> fst (geminiChatTry env req) = Inl e \<Longrightarrow>
   fst (geminiChat env req) = geminiChatCatch env e"
  by (cases "geminiChatTry env req") (simp add: geminiChat_def)

lemma deepseekChat_throws:
  "req_method req \<noteq> ''OPTIONS'' \<Longrightarrow> fst (deepseekChatTry P env req) = Inl e \<Longrightarrow>
   fst (deepseekChat P env req) = deepseekChatCatch e"
  by (cases "deepseekChatTry P env req") (simp add: deepseekChat_def)

lemma openaiChat_throws:
  "req_method req \<noteq> ''OPTIONS'' \<Longrightarrow> fst (openaiChatTry P env req) = Inl e \<Longrightarrow>
   fst (openaiChat P env req) = openaiChatCatch e"
  by (cases "openaiChatTry P env req") (simp add: openaiChat_def)

lemma lovableAnswer_body: "lovableAnswer r = Inr resp \<Longrightarrow> body resp \<noteq> None"
  by (auto simp: lovableAnswer_def jsonResponse_def split: if_splits sum.splits)

lemma openaiChatAnswer_body: "openaiChatAnswer P r = Inr resp \<Longrightarrow> body resp \<noteq> None"
  by (auto simp: openaiChatAnswer_def jsonResponse_def split: if_splits sum.splits json.splits)

lemma errorEnvelope_body: "errorEnvelope r \<Longrightarrow> body r \<noteq> None"
  by (auto simp: errorEnvelope_def split: option.splits)

lemma geminiChat_body: "req_method req \<noteq> ''OPTIONS'' \<Longrightarrow> body (fst (geminiChat env req)) \<noteq> None"
proof (cases "geminiChatTry env req")
  case (Pair result calls)
  assume m: "req_method req \<noteq> ''OPTIONS''"
  show ?thesis
  proof (cases result)
    case (Inl e)
    with Pair m show ?thesis
      by (simp add: geminiChat_def errorEnvelope_body [OF errorEnvelope_geminiChatCatch])
  next
    case (Inr resp)
    with Pair have "lovableAnswer (projr (fetch env (projr (geminiChatPrepare env req)))) = Inr resp"
      by (auto simp: geminiChatTry_def viaGateway_def split: sum.splits)
    then have "body resp \<noteq> None" by (rule lovableAnswer_body)
    with Pair Inr m show ?thesis by (simp add: geminiChat_def)
  qed
qed

lemma deepseekChat_body: "req_method req \<noteq> ''OPTIONS'' \<Longrightarrow> body (fst (deepseekChat P env req)) \<noteq> None"
proof (cases "deepseekChatTry P env req")
  case (Pair result calls)
  assume m: "req_method req \<noteq> ''OPTIONS''"
  show ?thesis
  proof (cases result)
    case (Inl e)
    with Pair m show ?thesis
      by (simp add: deepseekChat_def errorEnvelope_body [OF errorEnvelope_deepseekChatCatch])
  next
    case (Inr resp)
    with Pair have "lovableAnswer (projr (fetch env (projr (deepseekChatPrepare P env req)))) = Inr resp"
      by (auto simp: deepseekChatTry_def viaGateway_def split: sum.splits)
    then have "body resp \<noteq> None" by (rule lovableAnswer_body)
    with Pair Inr m show ?thesis by (simp add: deepseekChat_def)
  qed
qed

lemma openaiChat_body: "req_method req \<noteq> ''OPTIONS'' \<Longrightarrow> body (fst (openaiChat P env req)) \<noteq> None"
proof (cases "openaiChatTry P env req")
  case (Pair result calls)
  assume m: "req_method req \<noteq> ''OPTIONS''"
  show ?thesis
  proof (cases result)
    case (Inl e)
    with Pair m show ?thesis
      by (simp add: openaiChat_def errorEnvelope_body [OF errorEnvelope_openaiChatCatch])
  next
    case (Inr resp)
    with Pair have "openaiChatAnswer P (projr (fetch env (projr (openaiChatPrepare env req)))) = Inr resp"
      by (auto simp: openaiChatTry_def viaGateway_def split: sum.splits)
    then have "body resp \<noteq> None" by (rule openaiChatAnswer_body)
    with Pair Inr m show ?thesis by (simp add: openaiChat_def)
  qed
qed

lemma geminiChatPrepare_fails:
  "req_json req = Inl e \<or> LOVABLE_API_KEY env = None \<Longrightarrow> \<exists>e'. geminiChatPrepare env req = Inl e'"
  by (auto simp: geminiChatPrepare_def destructure_def requireKey_def split: sum.splits json.splits)

lemma deepseekChatPrepare_fails:
  "req_json req = Inl e \<or> LOVABLE_API_KEY env = None \<Longrightarrow> \<exists>e'. deepseekChatPrepare P env req = Inl e'"
  by (auto simp: deepseekChatPrepare_def destructure_def requireKey_def split: sum.splits json.splits)

lemma openaiChatPrepare_fails:
  "req_json req = Inl e \<or> LOVABLE_API_KEY env = None \<Longrightarrow> \<exists>e'. openaiChatPrepare env req = Inl e'"
  by (auto simp: openaiChatPrepare_def destructure_def split: sum.splits json.splits option.splits)

lemma errorText_jsonResponse:
  "errorText (jsonResponse code (JObj [(''success'', JBool False), (''error'', JStr m)])) = Some m"
  by (simp add: errorText_def jsonResponse_def lookup_def)

lemma successFlag_jsonResponse:
  "successFlag (jsonResponse code (JObj [(''success'', JBool False), (''error'', JStr m)])) = Some (JBool False)"
  by (simp add: successFlag_def jsonResponse_def lookup_def)

lemma mentions_rate_limit:
  "mentions ''rate limit'' rateLimitMessage \<and>
   mentions ''rate limit'' ''Rate limit exceeded, please try again later''"
  by (simp add: mentions_def rateLimitMessage_def str_includes_def sublist_code ascii_lower_def)

lemma mentions_credits:
  "mentions ''credits'' creditsMessage \<and>
   mentions ''credits'' ''Payment required, please add credits to your workspace''"
  by (simp add: mentions_def creditsMessage_def str_includes_def sublist_code ascii_lower_def)

lemma geminiChat_passes_on:
  assumes "snd (geminiChat env req) = [call]" "fetch env call = Inr r" "gw_text r = Inr t"
  shows "(gw_status r = 429 \<longrightarrow>
            fst (geminiChat env req) =
              jsonResponse 429 (JObj [(''success'', JBool False), (''error'', JStr rateLimitMessage)])) \<and>
         (gw_status r = 402 \<longrightarrow>
            fst (geminiChat env req) =
              jsonResponse 402 (JObj [(''success'', JBool False), (''error'', JStr creditsMessage)]))"
  using geminiChat_called [OF assms(1)] assms(2)
  by (simp add: lovableAnswer_429 [OF assms(3)] lovableAnswer_402 [OF assms(3)])

lemma deepseekChat_passes_on:
  assumes "snd (deepseekChat P env req) = [call]" "fetch env call = Inr r" "gw_text r = Inr t"
  shows "(gw_status r = 429 \<longrightarrow>
            fst (deepseekChat P env req) =
              jsonResponse 429 (JObj [(''success'', JBool False), (''error'', JStr rateLimitMessage)])) \<and>
         (gw_status r = 402 \<longrightarrow>
            fst (deepseekChat P env req) =
              jsonResponse 402 (JObj [(''success'', JBool False), (''error'', JStr creditsMessage)]))"
  using deepseekChat_called [OF assms(1)] assms(2)
  by (simp add: lovableAnswer_429 [OF assms(3)] lovableAnswer_402 [OF assms(3)])

lemma openaiChat_passes_on:
  assumes "snd (openaiChat P env req) = [call]" "fetch env call = Inr r"
  shows "(gw_status r = 429 \<longrightarrow>
            fst (openaiChat P env req) =
              jsonResponse 429
                (JObj [(''success'', JBool False),
                       (''error'', JStr ''Rate limit exceeded, please try again later'')])) \<and>
         (gw_status r = 402 \<longrightarrow>
            fst (openaiChat P env req) =
              jsonResponse 402
                (JObj [(''success'', JBool False),
                       (''error'', JStr ''Payment required, please add credits to your workspace'')]))"
  using openaiChat_called [OF assms(1)] assms(2)
  by (simp add: openaiChatAnswer_429 openaiChatAnswer_402)

text \<open>
  Claim C3, amended. In Variant C, when the handler has called the gateway and the
  gateway answers with status 429, the response has status 429, success false and the
  proxy's rate-limit message; with status 402 it has status 402, success false and the
  proxy's credits message. In Variants A and B the same holds when the text of the
  gateway's answer can be read. The two rate-limit messages mention "rate limit" and the
  two credits messages mention "credits", letter case aside.
\<close>

theorem rate_limit_and_payment_statuses_passed_on:
  "(snd (geminiChat env req) = [call] \<and> fetch env call = Inr r \<and> gw_text r = Inr t \<and>
      gw_status r = 429 \<longrightarrow>
      status (fst (geminiChat env req)) = 429 \<and>
      successFlag (fst (geminiChat env req)) = Some (JBool False) \<and>
      errorText (fst (geminiChat env req)) = Some rateLimitMessage) \<and>
   (snd (geminiChat env req) = [call] \<and> fetch env call = Inr r \<and> gw_text r = Inr t \<and>
      gw_status r = 402 \<longrightarrow>
      status (fst (geminiChat env req)) = 402 \<and>
      successFlag (fst (geminiChat env req)) = Some (JBool False) \<and>
      errorText (fst (geminiChat env req)) = Some creditsMessage) \<and>
   (snd (deepseekChat P env req) = [call] \<and> fetch env call = Inr r \<and> gw_text r = Inr t \<and>
      gw_status r = 429 \<longrightarrow>
      status (fst (deepseekChat P env req)) = 429 \<and>
      successFlag (fst (deepseekChat P env req)) = Some (JBool False) \<and>
      errorText (fst (deepseekChat P env req)) = Some rateLimitMessage) \<and>
   (snd (deepseekChat P env req) = [call] \<and> fetch env call = Inr r \<and> gw_text r = Inr t \<and>
      gw_status r = 402 \<longrightarrow>
      status (fst (deepseekChat P env req)) = 402 \<and>
      successFlag (fst (deepseekChat P env req)) = Some (JBool False) \<and>
      errorText (fst (deepseekChat P env req)) = Some creditsMessage) \<and>
   (snd (openaiChat P env req) = [call] \<and> fetch env call = Inr r \<and> gw_status r = 429 \<longrightarrow>
      status (fst (openaiChat P env req)) = 429 \<and>
      successFlag (fst (openaiChat P env req)) = Some (JBool False) \<and>
      errorText (fst (openaiChat P env req)) = Some ''Rate limit exceeded, please try again later'') \<and>
   (snd (openaiChat P env req) = [call] \<and> fetch env call = Inr r \<and> gw_status r = 402 \<longrightarrow>
      status (fst (openaiChat P env req)) = 402 \<and>
      successFlag (fst (openaiChat P env req)) = Some (JBool False) \<and>
      errorText (fst (openaiChat P env req)) = Some ''Payment required, please add credits to your workspace'') \<and>
   mentions ''rate limit'' rateLimitMessage \<and>
   mentions ''rate limit'' ''Rate limit exceeded, please try again later'' \<and>
   mentions ''credits'' creditsMessage \<and>
   mentions ''credits'' ''Payment required, please add credits to your workspace''"
proof -
  have g: "snd (geminiChat env req) = [call] \<and> fetch env call = Inr r \<and> gw_text r = Inr t \<and>
             gw_status r = code \<Longrightarrow>
             code = 429 \<or> code = 402 \<Longrightarrow>
             status (fst (geminiChat env req)) = code \<and>
             successFlag (fst (geminiChat env req)) = Some (JBool False) \<and>
             errorText (fst (geminiChat env req)) = Some (if code = 429 then rateLimitMessage else creditsMessage)"
    for code
    using geminiChat_passes_on [of env req call r t]
    by (auto simp: status_jsonResponse successFlag_jsonResponse errorText_jsonResponse)
  have d: "snd (deepseekChat P env req) = [call] \<and> fetch env call = Inr r \<and> gw_text r = Inr t \<and>
             gw_status r = code \<Longrightarrow>
             code = 429 \<or> code = 402 \<Longrightarrow>
             status (fst (deepseekChat P env req)) = code \<and>
             successFlag (fst (deepseekChat P env req)) = Some (JBool False) \<and>
             errorText (fst (deepseekChat P env req)) = Some (if code = 429 then rateLimitMessage else creditsMessage)"
    for code
    using deepseekChat_passes_on [of P env req call r t]
    by (auto simp: status_jsonResponse successFlag_jsonResponse errorText_jsonResponse)
  have c: "snd (openaiChat P env req) = [call] \<and> fetch env call = Inr r \<and> gw_status r = code \<Longrightarrow>
             code = 429 \<or> code = 402 \<Longrightarrow>
             status (fst (openaiChat P env req)) = code \<and>
             successFlag (fst (openaiChat P env req)) = Some (JBool False) \<and>
             errorText (fst (openaiChat P env req)) =
               Some (if code = 429 then ''Rate limit exceeded, please try again later''
                     else ''Payment required, please add credits to your workspace'')"
    for code
    using openaiChat_passes_on [of P env req call r]
    by (auto simp: status_jsonResponse successFlag_jsonResponse errorText_jsonResponse)
  show ?thesis
    using g [of 429] g [of 402] d [of 429] d [of 402] c [of 429] c [of 402]
      mentions_rate_limit mentions_credits
    by simp
qed

lemma geminiChat_envelope:
  "(req_method req \<noteq> ''OPTIONS'' \<and> fst (geminiChatTry env req) = Inl e \<longrightarrow>
      errorEnvelope (fst (geminiChat env req))) \<and>
   (req_method req \<noteq> ''OPTIONS'' \<and> (req_json req = Inl e \<or> LOVABLE_API_KEY env = None) \<longrightarrow>
      errorEnvelope (fst (geminiChat env req))) \<and>
   (snd (geminiChat env req) = [call] \<and>
      (fetch env call = Inl e \<or>
       fetch env call = Inr r \<and> \<not> ok r \<and> gw_status r \<noteq> 429 \<and> gw_status r \<noteq> 402) \<longrightarrow>
      errorEnvelope (fst (geminiChat env req)))"
proof (intro conjI impI)
  assume "req_method req \<noteq> ''OPTIONS'' \<and> fst (geminiChatTry env req) = Inl e"
  then show "errorEnvelope (fst (geminiChat env req))"
    by (simp add: geminiChat_throws errorEnvelope_geminiChatCatch)
next
  assume a: "req_method req \<noteq> ''OPTIONS'' \<and> (req_json req = Inl e \<or> LOVABLE_API_KEY env = None)"
  then obtain e' where "geminiChatPrepare env req = Inl e'"
    using geminiChatPrepare_fails [of req e env] by blast
  then have "fst (geminiChatTry env req) = Inl e'"
    by (simp add: geminiChatTry_def viaGateway_not_prepared)
  with a show "errorEnvelope (fst (geminiChat env req))"
    by (simp add: geminiChat_throws errorEnvelope_geminiChatCatch)
next
  assume a: "snd (geminiChat env req) = [call] \<and>
      (fetch env call = Inl e \<or>
       fetch env call = Inr r \<and> \<not> ok r \<and> gw_status r \<noteq> 429 \<and> gw_status r \<noteq> 402)"
  then have c: "fst (geminiChat env req) =
           (case fetch env call of
              Inl e \<Rightarrow> geminiChatCatch env e
            | Inr r \<Rightarrow> (case lovableAnswer r of Inl e \<Rightarrow> geminiChatCatch env e | Inr resp \<Rightarrow> resp))"
    using geminiChat_called [of env req call] by simp
  from a show "errorEnvelope (fst (geminiChat env req))"
    unfolding c using lovableAnswer_failure [of r]
    by (auto simp: errorEnvelope_geminiChatCatch)
qed

lemma deepseekChat_envelope:
  "(req_method req \<noteq> ''OPTIONS'' \<and> fst (deepseekChatTry P env req) = Inl e \<longrightarrow>
      errorEnvelope (fst (deepseekChat P env req))) \<and>
   (req_method req \<noteq> ''OPTIONS'' \<and> (req_json req = Inl e \<or> LOVABLE_API_KEY env = None) \<longrightarrow>
      errorEnvelope (fst (deepseekChat P env req))) \<and>
   (snd (deepseekChat P env req) = [call] \<and>
      (fetch env call = Inl e \<or>
       fetch env call = Inr r \<and> \<not> ok r \<and> gw_status r \<noteq> 429 \<and> gw_status r \<noteq> 402) \<longrightarrow>
      errorEnvelope (fst (deepseekChat P env req)))"
proof (intro conjI impI)
  assume "req_method req \<noteq> ''OPTIONS'' \<and> fst (deepseekChatTry P env req) = Inl e"
  then show "errorEnvelope (fst (deepseekChat P env req))"
    by (simp add: deepseekChat_throws errorEnvelope_deepseekChatCatch)
next
  assume a: "req_method req \<noteq> ''OPTIONS'' \<and> (req_json req = Inl e \<or> LOVABLE_API_KEY env = None)"
  then obtain e' where "deepseekChatPrepare P env req = Inl e'"
    using deepseekChatPrepare_fails [of req e env P] by blast
  then have "fst (deepseekChatTry P env req) = Inl e'"
    by (simp add: deepseekChatTry_def viaGateway_not_prepared)
  with a show "errorEnvelope (fst (deepseekChat P env req))"
    by (simp add: deepseekChat_throws errorEnvelope_deepseekChatCatch)
next
  assume a: "snd (deepseekChat P env req) = [call] \<and>
      (fetch env call = Inl e \<or>
       fetch env call = Inr r \<and> \<not> ok r \<and> gw_status r \<noteq> 429 \<and> gw_status r \<noteq> 402)"
  then have c: "fst (deepseekChat P env req) =
           (case fetch env call of
              Inl e \<Rightarrow> deepseekChatCatch e
            | Inr r \<Rightarrow> (case lovableAnswer r of Inl e \<Rightarrow> deepseekChatCatch e | Inr resp \<Rightarrow> resp))"
    using deepseekChat_called [of P env req call] by simp
  from a show "errorEnvelope (fst (deepseekChat P env req))"
    unfolding c using lovableAnswer_failure [of r]
    by (auto simp: errorEnvelope_deepseekChatCatch)
qed

lemma openaiChat_envelope:
  "(req_method req \<noteq> ''OPTIONS'' \<and> fst (openaiChatTry P env req) = Inl e \<longrightarrow>
      errorEnvelope (fst (openaiChat P env req))) \<and>
   (req_method req \<noteq> ''OPTIONS'' \<and> (req_json req = Inl e \<or> LOVABLE_API_KEY env = None) \<longrightarrow>
      errorEnvelope (fst (openaiChat P env req))) \<and>
   (snd (openaiChat P env req) = [call] \<and>
      (fetch env call = Inl e \<or>
       fetch env call = Inr r \<and> \<not> ok r \<and> gw_status r \<noteq> 429 \<and> gw_status r \<noteq> 402) \<longrightarrow>
      errorEnvelope (fst (openaiChat P env req)))"
proof (intro conjI impI)
  assume "req_method req \<noteq> ''OPTIONS'' \<and> fst (openaiChatTry P env req) = Inl e"
  then show "errorEnvelope (fst (openaiChat P env req))"
    by (simp add: openaiChat_throws errorEnvelope_openaiChatCatch)
next
  assume a: "req_method req \<noteq> ''OPTIONS'' \<and> (req_json req = Inl e \<or> LOVABLE_API_KEY env = None)"
  then obtain e' where "openaiChatPrepare env req = Inl e'"
    using openaiChatPrepare_fails [of req e env] by blast
  then have "fst (openaiChatTry P env req) = Inl e'"
    by (simp add: openaiChatTry_def viaGateway_not_prepared)
  with a show "errorEnvelope (fst (openaiChat P env req))"
    by (simp add: openaiChat_throws errorEnvelope_openaiChatCatch)
next
  assume a: "snd (openaiChat P env req) = [call] \<and>
      (fetch env call = Inl e \<or>
       fetch env call = Inr r \<and> \<not> ok r \<and> gw_status r \<noteq> 429 \<and> gw_status r \<noteq> 402)"
  then have c: "fst (openaiChat P env req) =
           (case fetch env call of
              Inl e \<Rightarrow> openaiChatCatch e
            | Inr r \<Rightarrow> (case openaiChatAnswer P r of Inl e \<Rightarrow> openaiChatCatch e | Inr resp \<Rightarrow> resp))"
    using openaiChat_called [of P env req call] by simp
  from a show "errorEnvelope (fst (openaiChat P env req))"
    unfolding c using openaiChatAnswer_failure [of r P]
    by (auto simp: errorEnvelope_openaiChatCatch)
qed

text \<open>
  Claim C4. For every request other than a preflight, each of the three proxies
  answers with a JSON body. Whenever the try block of a handler throws, the response
  is the error envelope: status 500 and a JSON body with success false and a member
  error. This covers a body that does not parse, a missing key in the environment, a
  rejected call of the gateway and an answer of the gateway that is neither 2xx nor 429
  nor 402.
\<close>

theorem every_exception_gives_the_error_envelope:
  "(req_method req \<noteq> ''OPTIONS'' \<longrightarrow>
      body (fst (geminiChat env req)) \<noteq> None \<and>
      body (fst (deepseekChat P env req)) \<noteq> None \<and>
      body (fst (openaiChat P env req)) \<noteq> None) \<and>
   (req_method req \<noteq> ''OPTIONS'' \<and> fst (geminiChatTry env req) = Inl e \<longrightarrow>
      errorEnvelope (fst (geminiChat env req))) \<and>
   (req_method req \<noteq> ''OPTIONS'' \<and> fst (deepseekChatTry P env req) = Inl e \<longrightarrow>
      errorEnvelope (fst (deepseekChat P env req))) \<and>
   (req_method req \<noteq> ''OPTIONS'' \<and> fst (openaiChatTry P env req) = Inl e \<longrightarrow>
      errorEnvelope (fst (openaiChat P env req))) \<and>
   (req_method req \<noteq> ''OPTIONS'' \<and> (req_json req = Inl e \<or> LOVABLE_API_KEY env = None) \<longrightarrow>
      errorEnvelope (fst (geminiChat env req)) \<and>
      errorEnvelope (fst (deepseekChat P env req)) \<and>
      errorEnvelope (fst (openaiChat P env req))) \<and>
   (snd (geminiChat env req) = [call] \<and>
      (fetch env call = Inl e \<or>
       fetch env call = Inr r \<and> \<not> ok r \<and> gw_status r \<noteq> 429 \<and> gw_status r \<noteq> 402) \<longrightarrow>
      errorEnvelope (fst (geminiChat env req))) \<and>
   (snd (deepseekChat P env req) = [call] \<and>
      (fetch env call = Inl e \<or>
       fetch env call = Inr r \<and> \<not> ok r \<and> gw_status r \<noteq> 429 \<and> gw_status r \<noteq> 402) \<longrightarrow>
      errorEnvelope (fst (deepseekChat P env req))) \<and>
   (snd (openaiChat P env req) = [call] \<and>
      (fetch env call = Inl e \<or>
       fetch env call = Inr r \<and> \<not> ok r \<and> gw_status r \<noteq> 429 \<and> gw_status r \<noteq> 402) \<longrightarrow>
      errorEnvelope (fst (openaiChat P env req)))"
proof (intro conjI)
  show "req_method req \<noteq> ''OPTIONS'' \<longrightarrow>
      body (fst (geminiChat env req)) \<noteq> None \<and>
      body (fst (deepseekChat P env req)) \<noteq> None \<and>
      body (fst (openaiChat P env req)) \<noteq> None"
    by (simp add: geminiChat_body deepseekChat_body openaiChat_body)
  show "req_method req \<noteq> ''OPTIONS'' \<and> fst (geminiChatTry env req) = Inl e \<longrightarrow>
      errorEnvelope (fst (geminiChat env req))"
    by (rule geminiChat_envelope [THEN conjunct1])
  show "req_method req \<noteq> ''OPTIONS'' \<and> fst (deepseekChatTry P env req) = Inl e \<longrightarrow>
      errorEnvelope (fst (deepseekChat P env req))"
    by (rule deepseekChat_envelope [THEN conjunct1])
  show "req_method req \<noteq> ''OPTIONS'' \<and> fst (openaiChatTry P env req) = Inl e \<longrightarrow>
      errorEnvelope (fst (openaiChat P env req))"
    by (rule openaiChat_envelope [THEN conjunct1])
  show "req_method req \<noteq> ''OPTIONS'' \<and> (req_json req = Inl e \<or> LOVABLE_API_KEY env = None) \<longrightarrow>
      errorEnvelope (fst (geminiChat env req)) \<and>
      errorEnvelope (fst (deepseekChat P env req)) \<and>
      errorEnvelope (fst (openaiChat P env req))"
  proof (intro impI conjI)
    assume a: "req_method req \<noteq> ''OPTIONS'' \<and> (req_json req = Inl e \<or> LOVABLE_API_KEY env = None)"
    from a show "errorEnvelope (fst (geminiChat env req))"
      by (rule geminiChat_envelope [THEN conjunct2, THEN conjunct1, THEN mp])
    from a show "errorEnvelope (fst (deepseekChat P env req))"
      by (rule deepseekChat_envelope [THEN conjunct2, THEN conjunct1, THEN mp])
    from a show "errorEnvelope (fst (openaiChat P env req))"
      by (rule openaiChat_envelope [THEN conjunct2, THEN conjunct1, THEN mp])
  qed
  show "snd (geminiChat env req) = [call] \<and>
      (fetch env call = Inl e \<or>
       fetch env call = Inr r \<and> \<not> ok r \<and> gw_status r \<noteq> 429 \<and> gw_status r \<noteq> 402) \<longrightarrow>
      errorEnvelope (fst (geminiChat env req))"
    by (rule geminiChat_envelope [THEN conjunct2, THEN conjunct2])
  show "snd (deepseekChat P env req) = [call] \<and>
      (fetch env call = Inl e \<or>
       fetch env call = Inr r \<and> \<not> ok r \<and> gw_status r \<noteq> 429 \<and> gw_status r \<noteq> 402) \<longrightarrow>
      errorEnvelope (fst (deepseekChat P env req))"
    by (rule deepseekChat_envelope [THEN conjunct2, THEN conjunct2])
  show "snd (openaiChat P env req) = [call] \<and>
      (fetch env call = Inl e \<or>
       fetch env call = Inr r \<and> \<not> ok r \<and> gw_status r \<noteq> 429 \<and> gw_status r \<noteq> 402) \<longrightarrow>
      errorEnvelope (fst (openaiChat P env req))"
    by (rule openaiChat_envelope [THEN conjunct2, THEN conjunct2])
qed

text \<open>
  Claim C6, as stated, fails for the body \<open>null\<close>: it has no messages member, and
  Variant C answers with the engine's message for destructuring null, not with the
  message of the validation.
\<close>

theorem null_body_counterexample:
  "own JNull ''messages'' = None \<and>
   openaiChat asciiPlatform (demoEnv (Some ''key'') (gatewayAnswers 200)) (post JNull) =
     (jsonResponse 500
        (JObj [(''success'', JBool False),
               (''error'', JStr (''Cannot destructure property '' @ quoted ''messages'' @ '' of ''
                                  @ quoted ''(intermediate value)'' @ '' as it is null.''))]), []) \<and>
   errorText (fst (openaiChat asciiPlatform (demoEnv (Some ''key'') (gatewayAnswers 200)) (post JNull)))
     \<noteq> Some ''Messages array is required''"
  by (simp add: openaiChat_def openaiChatTry_def openaiChatPrepare_def destructure_def post_def
      viaGateway_def openaiChatCatch_def object_def List.map_filter_def quoted_def errorText_def
      jsonResponse_def lookup_def)

lemma openaiChatPrepare_no_messages:
  assumes "req_json req = Inr b" "b \<noteq> JNull" "\<forall>ms. own b ''messages'' \<noteq> Some (JArr ms)"
  shows "openaiChatPrepare env req = Inl (Error ''Messages array is required'')"
proof -
  from assms(1,2) have d: "destructure req = Inr b"
    by (cases b) (simp_all add: destructure_def)
  show ?thesis
  proof (cases "own b ''messages''")
    case None
    with d show ?thesis by (simp add: openaiChatPrepare_def)
  next
    case (Some m)
    with assms(3) have "\<forall>ms. m \<noteq> JArr ms" by simp
    with d Some show ?thesis by (cases m) (simp_all add: openaiChatPrepare_def)
  qed
qed

lemma openaiChatPrepare_no_body:
  "req_json req = Inl e \<or> req_json req = Inr JNull \<Longrightarrow> \<exists>e'. openaiChatPrepare env req = Inl e'"
  by (auto simp: openaiChatPrepare_def destructure_def)

text \<open>
  Claim C6, amended. For every request whose body parses to a value other than null in
  which messages is absent or is not an array, Variant C answers with status 500 and the
  error "Messages array is required", and calls the gateway not at all. For a body that
  does not parse or that is null it also makes no call and answers with the error
  envelope, whose message is then the engine's.
\<close>

theorem openai_rejects_missing_messages:
  "(req_method req \<noteq> ''OPTIONS'' \<and> req_json req = Inr b \<and> b \<noteq> JNull \<and>
      (\<forall>ms. own b ''messages'' \<noteq> Some (JArr ms)) \<longrightarrow>
      openaiChat P env req =
        (jsonResponse 500
           (JObj [(''success'', JBool False), (''error'', JStr ''Messages array is required'')]), [])) \<and>
   (req_method req \<noteq> ''OPTIONS'' \<and> (req_json req = Inl e \<or> req_json req = Inr JNull) \<longrightarrow>
      errorEnvelope (fst (openaiChat P env req)) \<and> snd (openaiChat P env req) = [])"
proof (intro conjI impI)
  assume a: "req_method req \<noteq> ''OPTIONS'' \<and> req_json req = Inr b \<and> b \<noteq> JNull \<and>
      (\<forall>ms. own b ''messages'' \<noteq> Some (JArr ms))"
  then have "openaiChatPrepare env req = Inl (Error ''Messages array is required'')"
    by (simp add: openaiChatPrepare_no_messages)
  then have "openaiChatTry P env req = (Inl (Error ''Messages array is required''), [])"
    by (simp add: openaiChatTry_def viaGateway_not_prepared)
  with a show "openaiChat P env req =
        (jsonResponse 500
           (JObj [(''success'', JBool False), (''error'', JStr ''Messages array is required'')]), [])"
    by (simp add: openaiChat_def openaiChatCatch_def object_two)
next
  assume a: "req_method req \<noteq> ''OPTIONS'' \<and> (req_json req = Inl e \<or> req_json req = Inr JNull)"
  then obtain e' where "openaiChatPrepare env req = Inl e'"
    using openaiChatPrepare_no_body [of req e env] by blast
  then have t: "openaiChatTry P env req = (Inl e', [])"
    by (simp add: openaiChatTry_def viaGateway_not_prepared)
  with a show "errorEnvelope (fst (openaiChat P env req))"
    by (simp add: openaiChat_def errorEnvelope_openaiChatCatch)
  from a t show "snd (openaiChat P env req) = []"
    by (simp add: openaiChat_def)
qed

theorem openai_rejects_witness:
  "openaiChat asciiPlatform (demoEnv (Some ''key'') (gatewayAnswers 200)) (post (JObj [(''model'', JStr ''m'')])) =
     (jsonResponse 500
        (JObj [(''success'', JBool False), (''error'', JStr ''Messages array is required'')]), []) \<and>
   openaiChat asciiPlatform (demoEnv (Some ''key'') (gatewayAnswers 200)) (post (JObj [(''messages'', JStr ''hi'')])) =
     (jsonResponse 500
        (JObj [(''success'', JBool False), (''error'', JStr ''Messages array is required'')]), []) \<and>
   snd (openaiChat asciiPlatform (demoEnv (Some ''key'') (gatewayAnswers 200)) (post JNull)) = [] \<and>
   errorEnvelope (fst (openaiChat asciiPlatform (demoEnv (Some ''key'') (gatewayAnswers 200)) (post JNull)))"
proof -
  let ?env = "demoEnv (Some ''key'') (gatewayAnswers 200)"
  have m: "req_method (post b) \<noteq> ''OPTIONS''" and j: "req_json (post b) = Inr b" for b
    by (simp_all add: post_def)
  have a: "openaiChat asciiPlatform ?env (post (JObj [(''model'', JStr ''m'')])) =
     (jsonResponse 500
        (JObj [(''success'', JBool False), (''error'', JStr ''Messages array is required'')]), [])"
    by (rule openai_rejects_missing_messages [where b = "JObj [(''model'', JStr ''m'')]", THEN conjunct1, THEN mp])
      (simp add: m j lookup_def)
  have b: "openaiChat asciiPlatform ?env (post (JObj [(''messages'', JStr ''hi'')])) =
     (jsonResponse 500
        (JObj [(''success'', JBool False), (''error'', JStr ''Messages array is required'')]), [])"
    by (rule openai_rejects_missing_messages [where b = "JObj [(''messages'', JStr ''hi'')]", THEN conjunct1, THEN mp])
      (simp add: m j lookup_def)
  have c: "errorEnvelope (fst (openaiChat asciiPlatform ?env (post JNull))) \<and>
           snd (openaiChat asciiPlatform ?env (post JNull)) = []"
    by (rule openai_rejects_missing_messages [THEN conjunct2, THEN mp]) (simp add: m j)
  from a b c show ?thesis by simp
qed

section \<open>Truncated histories and evaluations of the proxies\<close>

lemma demo_gemini_prepare:
  "geminiChatPrepare (demoEnv (Some ''key'') answer) (post demoBody) = Inr demoGeminiCall"
  by (simp add: geminiChatPrepare_def destructure_def post_def demoBody_def requireKey_def demoEnv_def
      geminiRecent_def lookup_def demoGeminiCall_def object_three)

lemma demo_deepseek_recent:
  "mapThrowing (minimalMessage asciiPlatform) (slice_last 3 demoMessages) =
     Inr [userSays ''m10'', userSays ''m11'', JObj [(''role'', JStr ''user''), (''content'', JStr ''12'')]]"
  by (simp add: slice_last_def demoMessages_def minimalMessage_def readProp_def userSays_def lookup_def
      object_def List.map_filter_def asciiPlatform_def decimal.simps)

lemma demo_deepseek_prepare:
  "deepseekChatPrepare asciiPlatform (demoEnv (Some ''key'') answer) (post demoBody) = Inr demoDeepseekCall"
  by (simp add: deepseekChatPrepare_def destructure_def post_def demoBody_def requireKey_def demoEnv_def
      deepseekRecent_def lookup_def demoDeepseekCall_def object_three demo_deepseek_recent)

lemma demo_openai_prepare:
  "openaiChatPrepare (demoEnv (Some ''key'') answer) (post demoBody) = Inr demoOpenaiCall"
  by (simp add: openaiChatPrepare_def destructure_def post_def demoBody_def demoEnv_def
      lookup_def demoOpenaiCall_def object_def List.map_filter_def withDefault_def)

lemma geminiChat_calls:
  "req_method req \<noteq> ''OPTIONS'' \<Longrightarrow>
   snd (geminiChat env req) = (case geminiChatPrepare env req of Inl e \<Rightarrow> [] | Inr call \<Rightarrow> [call])"
  by (cases "geminiChatTry env req")
    (auto simp: geminiChat_def geminiChatTry_def viaGateway_def split: sum.splits)

lemma deepseekChat_calls:
  "req_method req \<noteq> ''OPTIONS'' \<Longrightarrow>
   snd (deepseekChat P env req) = (case deepseekChatPrepare P env req of Inl e \<Rightarrow> [] | Inr call \<Rightarrow> [call])"
  by (cases "deepseekChatTry P env req")
    (auto simp: deepseekChat_def deepseekChatTry_def viaGateway_def split: sum.splits)

lemma openaiChat_calls:
  "req_method req \<noteq> ''OPTIONS'' \<Longrightarrow>
   snd (openaiChat P env req) = (case openaiChatPrepare env req of Inl e \<Rightarrow> [] | Inr call \<Rightarrow> [call])"
  by (cases "openaiChatTry P env req")
    (auto simp: openaiChat_def openaiChatTry_def viaGateway_def split: sum.splits)

lemma post_method: "req_method (post b) \<noteq> ''OPTIONS''"
  by (simp add: post_def)

lemma demo_gemini_calls: "snd (geminiChat (demoEnv (Some ''key'') answer) (post demoBody)) = [demoGeminiCall]"
  by (simp add: geminiChat_calls post_method demo_gemini_prepare)

lemma demo_deepseek_calls:
  "snd (deepseekChat asciiPlatform (demoEnv (Some ''key'') answer) (post demoBody)) = [demoDeepseekCall]"
  by (simp add: deepseekChat_calls post_method demo_deepseek_prepare)

lemma demo_openai_calls:
  "snd (openaiChat asciiPlatform (demoEnv (Some ''key'') answer) (post demoBody)) = [demoOpenaiCall]"
  by (simp add: openaiChat_calls post_method demo_openai_prepare)

lemma demo_fetch: "fetch (demoEnv key answer) call = answer"
  by (simp add: demoEnv_def)

text \<open>
  Claim C3, as stated, fails for Variants A and B: they read the text of an answer that
  is not ok before they test its status, so an answer with status 429 or 402 whose text
  cannot be read ends in the catch block and is answered with status 500.
\<close>

theorem unreadable_answer_counterexample:
  "snd (geminiChat (demoEnv (Some ''key'') (Inr (unreadable 429))) (post demoBody)) = [demoGeminiCall] \<and>
   fetch (demoEnv (Some ''key'') (Inr (unreadable 429))) demoGeminiCall = Inr (unreadable 429) \<and>
   gw_status (unreadable 429) = 429 \<and>
   status (fst (geminiChat (demoEnv (Some ''key'') (Inr (unreadable 429))) (post demoBody))) = 500 \<and>
   snd (deepseekChat asciiPlatform (demoEnv (Some ''key'') (Inr (unreadable 402))) (post demoBody)) =
     [demoDeepseekCall] \<and>
   fetch (demoEnv (Some ''key'') (Inr (unreadable 402))) demoDeepseekCall = Inr (unreadable 402) \<and>
   gw_status (unreadable 402) = 402 \<and>
   status (fst (deepseekChat asciiPlatform (demoEnv (Some ''key'') (Inr (unreadable 402))) (post demoBody))) = 500"
proof -
  have l: "lovableAnswer (unreadable code) = Inl (TypeError ''error reading a body from connection'')"
    if "code = 429 \<or> code = 402" for code
    using that by (auto simp: lovableAnswer_def unreadable_def ok_def)
  have g: "status (fst (geminiChat (demoEnv (Some ''key'') (Inr (unreadable 429))) (post demoBody))) = 500"
    using geminiChat_called [OF demo_gemini_calls, of "Inr (unreadable 429)"]
    by (simp add: demo_fetch l geminiChatCatch_def status_jsonResponse)
  have d: "status (fst (deepseekChat asciiPlatform (demoEnv (Some ''key'') (Inr (unreadable 402))) (post demoBody)))
             = 500"
    using deepseekChat_called [OF demo_deepseek_calls, of "Inr (unreadable 402)"]
    by (simp add: demo_fetch l deepseekChatCatch_def status_jsonResponse)
  from g d show ?thesis
    by (simp add: demo_gemini_calls demo_deepseek_calls demo_fetch unreadable_def)
qed

theorem statuses_passed_on_witness:
  "status (fst (geminiChat (demoEnv (Some ''key'') (gatewayAnswers 429)) (post demoBody))) = 429 \<and>
   errorText (fst (geminiChat (demoEnv (Some ''key'') (gatewayAnswers 429)) (post demoBody))) = Some rateLimitMessage \<and>
   status (fst (geminiChat (demoEnv (Some ''key'') (gatewayAnswers 402)) (post demoBody))) = 402 \<and>
   errorText (fst (geminiChat (demoEnv (Some ''key'') (gatewayAnswers 402)) (post demoBody))) = Some creditsMessage \<and>
   status (fst (deepseekChat asciiPlatform (demoEnv (Some ''key'') (gatewayAnswers 429)) (post demoBody))) = 429 \<and>
   successFlag (fst (deepseekChat asciiPlatform (demoEnv (Some ''key'') (gatewayAnswers 429)) (post demoBody))) =
     Some (JBool False) \<and>
   status (fst (deepseekChat asciiPlatform (demoEnv (Some ''key'') (gatewayAnswers 402)) (post demoBody))) = 402 \<and>
   errorText (fst (deepseekChat asciiPlatform (demoEnv (Some ''key'') (gatewayAnswers 402)) (post demoBody))) =
     Some creditsMessage \<and>
   status (fst (openaiChat asciiPlatform (demoEnv (Some ''key'') (gatewayAnswers 429)) (post demoBody))) = 429 \<and>
   errorText (fst (openaiChat asciiPlatform (demoEnv (Some ''key'') (gatewayAnswers 429)) (post demoBody))) =
     Some ''Rate limit exceeded, please try again later'' \<and>
   status (fst (openaiChat asciiPlatform (demoEnv (Some ''key'') (gatewayAnswers 402)) (post demoBody))) = 402 \<and>
   errorText (fst (openaiChat asciiPlatform (demoEnv (Some ''key'') (gatewayAnswers 402)) (post demoBody))) =
     Some ''Payment required, please add credits to your workspace''"
proof -
  let ?r = "\<lambda>code. \<lparr> gw_status = code, gw_text = Inr ''{}'', gw_json = Inr (JObj []) \<rparr>"
  have f: "fetch (demoEnv (Some ''key'') (gatewayAnswers code)) call = Inr (?r code)" for code call
    by (simp add: demo_fetch gatewayAnswers_def)
  have s: "gw_status (?r code) = code" for code
    by simp
  note g429 = rate_limit_and_payment_statuses_passed_on
    [of "demoEnv (Some ''key'') (gatewayAnswers 429)" "post demoBody" demoGeminiCall "?r 429" "''{}''" asciiPlatform]
  note g402 = rate_limit_and_payment_statuses_passed_on
    [of "demoEnv (Some ''key'') (gatewayAnswers 402)" "post demoBody" demoGeminiCall "?r 402" "''{}''" asciiPlatform]
  note d429 = rate_limit_and_payment_statuses_passed_on
    [of "demoEnv (Some ''key'') (gatewayAnswers 429)" "post demoBody" demoDeepseekCall "?r 429" "''{}''" asciiPlatform]
  note d402 = rate_limit_and_payment_statuses_passed_on
    [of "demoEnv (Some ''key'') (gatewayAnswers 402)" "post demoBody" demoDeepseekCall "?r 402" "''{}''" asciiPlatform]
  note c429 = rate_limit_and_payment_statuses_passed_on
    [of "demoEnv (Some ''key'') (gatewayAnswers 429)" "post demoBody" demoOpenaiCall "?r 429" "''{}''" asciiPlatform]
  note c402 = rate_limit_and_payment_statuses_passed_on
    [of "demoEnv (Some ''key'') (gatewayAnswers 402)" "post demoBody" demoOpenaiCall "?r 402" "''{}''" asciiPlatform]
  have 1: "status (fst (geminiChat (demoEnv (Some ''key'') (gatewayAnswers 429)) (post demoBody))) = 429 \<and>
      successFlag (fst (geminiChat (demoEnv (Some ''key'') (gatewayAnswers 429)) (post demoBody))) = Some (JBool False) \<and>
      errorText (fst (geminiChat (demoEnv (Some ''key'') (gatewayAnswers 429)) (post demoBody))) = Some rateLimitMessage"
    by (rule g429 [THEN conjunct1, THEN mp]) (simp add: demo_gemini_calls f)
  have 2: "status (fst (geminiChat (demoEnv (Some ''key'') (gatewayAnswers 402)) (post demoBody))) = 402 \<and>
      successFlag (fst (geminiChat (demoEnv (Some ''key'') (gatewayAnswers 402)) (post demoBody))) = Some (JBool False) \<and>
      errorText (fst (geminiChat (demoEnv (Some ''key'') (gatewayAnswers 402)) (post demoBody))) = Some creditsMessage"
    by (rule g402 [THEN conjunct2, THEN conjunct1, THEN mp]) (simp add: demo_gemini_calls f)
  have 3: "status (fst (deepseekChat asciiPlatform (demoEnv (Some ''key'') (gatewayAnswers 429)) (post demoBody))) = 429 \<and>
      successFlag (fst (deepseekChat asciiPlatform (demoEnv (Some ''key'') (gatewayAnswers 429)) (post demoBody))) =
        Some (JBool False) \<and>
      errorText (fst (deepseekChat asciiPlatform (demoEnv (Some ''key'') (gatewayAnswers 429)) (post demoBody))) =
        Some rateLimitMessage"
    by (rule d429 [THEN conjunct2, THEN conjunct2, THEN conjunct1, THEN mp]) (simp add: demo_deepseek_calls f)
  have 4: "status (fst (deepseekChat asciiPlatform (demoEnv (Some ''key'') (gatewayAnswers 402)) (post demoBody))) = 402 \<and>
      successFlag (fst (deepseekChat asciiPlatform (demoEnv (Some ''key'') (gatewayAnswers 402)) (post demoBody))) =
        Some (JBool False) \<and>
      errorText (fst (deepseekChat asciiPlatform (demoEnv (Some ''key'') (gatewayAnswers 402)) (post demoBody))) =
        Some creditsMessage"
    by (rule d402 [THEN conjunct2, THEN conjunct2, THEN conjunct2, THEN conjunct1, THEN mp])
      (simp add: demo_deepseek_calls f)
  have 5: "status (fst (openaiChat asciiPlatform (demoEnv (Some ''key'') (gatewayAnswers 429)) (post demoBody))) = 429 \<and>
      successFlag (fst (openaiChat asciiPlatform (demoEnv (Some ''key'') (gatewayAnswers 429)) (post demoBody))) =
        Some (JBool False) \<and>
      errorText (fst (openaiChat asciiPlatform (demoEnv (Some ''key'') (gatewayAnswers 429)) (post demoBody))) =
        Some ''Rate limit exceeded, please try again later''"
    by (rule c429 [THEN conjunct2, THEN conjunct2, THEN conjunct2, THEN conjunct2, THEN conjunct1, THEN mp])
      (simp add: demo_openai_calls f)
  have 6: "status (fst (openaiChat asciiPlatform (demoEnv (Some ''key'') (gatewayAnswers 402)) (post demoBody))) = 402 \<and>
      successFlag (fst (openaiChat asciiPlatform (demoEnv (Some ''key'') (gatewayAnswers 402)) (post demoBody))) =
        Some (JBool False) \<and>
      errorText (fst (openaiChat asciiPlatform (demoEnv (Some ''key'') (gatewayAnswers 402)) (post demoBody))) =
        Some ''Payment required, please add credits to your workspace''"
    by (rule c402 [THEN conjunct2, THEN conjunct2, THEN conjunct2, THEN conjunct2, THEN conjunct2,
          THEN conjunct1, THEN mp])
      (simp add: demo_openai_calls f)
  from 1 2 3 4 5 6 show ?thesis by simp
qed

theorem error_envelope_witness:
  "body (fst (geminiChat (demoEnv (Some ''key'') (gatewayAnswers 200)) (post demoBody))) \<noteq> None \<and>
   errorEnvelope (fst (geminiChat (demoEnv None (gatewayAnswers 200)) (post demoBody))) \<and>
   errorEnvelope (fst (deepseekChat asciiPlatform (demoEnv None (gatewayAnswers 200)) (post demoBody))) \<and>
   errorEnvelope (fst (openaiChat asciiPlatform (demoEnv None (gatewayAnswers 200)) (post demoBody))) \<and>
   errorEnvelope (fst (openaiChat asciiPlatform (demoEnv (Some ''key'') (gatewayAnswers 200)) unparsable)) \<and>
   errorEnvelope (fst (geminiChat (demoEnv (Some ''key'') (gatewayAnswers 503)) (post demoBody))) \<and>
   errorEnvelope (fst (deepseekChat asciiPlatform
      (demoEnv (Some ''key'') (Inl (TypeError ''error sending request''))) (post demoBody))) \<and>
   errorEnvelope (fst (openaiChat asciiPlatform (demoEnv (Some ''key'') (gatewayAnswers 500)) (post demoBody)))"
proof -
  let ?r = "\<lambda>code. \<lparr> gw_status = code, gw_text = Inr ''{}'', gw_json = Inr (JObj []) \<rparr>"
  let ?down = "TypeError ''error sending request''"
  note T = every_exception_gives_the_error_envelope
  have 1: "body (fst (geminiChat (demoEnv (Some ''key'') (gatewayAnswers 200)) (post demoBody))) \<noteq> None"
    using T [of "post demoBody" "demoEnv (Some ''key'') (gatewayAnswers 200)" asciiPlatform]
    by (simp add: post_method)
  have g: "fst (geminiChatTry (demoEnv None (gatewayAnswers 200)) (post demoBody)) =
             Inl (Error ''AI service not configured'')"
    by (simp add: geminiChatTry_def viaGateway_def geminiChatPrepare_def destructure_def post_def
        demoBody_def requireKey_def demoEnv_def)
  have d: "fst (deepseekChatTry asciiPlatform (demoEnv None (gatewayAnswers 200)) (post demoBody)) =
             Inl (Error ''AI service not configured'')"
    by (simp add: deepseekChatTry_def viaGateway_def deepseekChatPrepare_def destructure_def post_def
        demoBody_def requireKey_def demoEnv_def)
  have c: "fst (openaiChatTry asciiPlatform (demoEnv None (gatewayAnswers 200)) (post demoBody)) =
             Inl (Error ''LOVABLE_API_KEY not configured'')"
    by (simp add: openaiChatTry_def viaGateway_def openaiChatPrepare_def destructure_def post_def
        demoBody_def demoEnv_def lookup_def)
  have 2: "errorEnvelope (fst (geminiChat (demoEnv None (gatewayAnswers 200)) (post demoBody)))"
    by (rule T [where e = "Error ''AI service not configured''",
          THEN conjunct2, THEN conjunct1, THEN mp]) (simp add: post_method g)
  have 3: "errorEnvelope (fst (deepseekChat asciiPlatform (demoEnv None (gatewayAnswers 200)) (post demoBody)))"
    by (rule T [where e = "Error ''AI service not configured''",
          THEN conjunct2, THEN conjunct2, THEN conjunct1, THEN mp]) (simp add: post_method d)
  have 4: "errorEnvelope (fst (openaiChat asciiPlatform (demoEnv None (gatewayAnswers 200)) (post demoBody)))"
    by (rule T [where e = "Error ''LOVABLE_API_KEY not configured''",
          THEN conjunct2, THEN conjunct2, THEN conjunct2, THEN conjunct1, THEN mp]) (simp add: post_method c)
  have "errorEnvelope (fst (geminiChat (demoEnv (Some ''key'') (gatewayAnswers 200)) unparsable)) \<and>
        errorEnvelope (fst (deepseekChat asciiPlatform (demoEnv (Some ''key'') (gatewayAnswers 200)) unparsable)) \<and>
        errorEnvelope (fst (openaiChat asciiPlatform (demoEnv (Some ''key'') (gatewayAnswers 200)) unparsable))"
    by (rule T [where e = "SyntaxError ''Unexpected end of JSON input''",
          THEN conjunct2, THEN conjunct2, THEN conjunct2, THEN conjunct2, THEN conjunct1, THEN mp])
      (simp add: unparsable_def)
  then have 5: "errorEnvelope (fst (openaiChat asciiPlatform (demoEnv (Some ''key'') (gatewayAnswers 200)) unparsable))"
    by simp
  have 6: "errorEnvelope (fst (geminiChat (demoEnv (Some ''key'') (gatewayAnswers 503)) (post demoBody)))"
    by (rule T [where call = demoGeminiCall and r = "?r 503" and e = ?down,
          THEN conjunct2, THEN conjunct2, THEN conjunct2, THEN conjunct2, THEN conjunct2, THEN conjunct1, THEN mp])
      (simp add: demo_gemini_calls demo_fetch gatewayAnswers_def ok_def)
  have 7: "errorEnvelope (fst (deepseekChat asciiPlatform (demoEnv (Some ''key'') (Inl ?down)) (post demoBody)))"
    by (rule T [where call = demoDeepseekCall and r = "?r 503" and e = ?down,
          THEN conjunct2, THEN conjunct2, THEN conjunct2, THEN conjunct2, THEN conjunct2, THEN conjunct2,
          THEN conjunct1, THEN mp])
      (simp add: demo_deepseek_calls demo_fetch)
  have 8: "errorEnvelope (fst (openaiChat asciiPlatform (demoEnv (Some ''key'') (gatewayAnswers 500)) (post demoBody)))"
    by (rule T [where call = demoOpenaiCall and r = "?r 500" and e = ?down,
          THEN conjunct2, THEN conjunct2, THEN conjunct2, THEN conjunct2, THEN conjunct2, THEN conjunct2,
          THEN conjunct2, THEN mp])
      (simp add: demo_openai_calls demo_fetch gatewayAnswers_def ok_def)
  from 1 2 3 4 5 6 7 8 show ?thesis by simp
qed

lemma mapThrowing_in_order:
  "mapThrowing f xs = Inr ys \<Longrightarrow> list_all2 (\<lambda>x y. f x = Inr y) xs ys"
  by (induction xs arbitrary: ys) (auto split: sum.splits)

lemma payloadMessages_gatewayCall:
  "payloadMessages (gatewayCall key (object [(''model'', Some m), (''messages'', Some (JArr xs)), (''stream'', Some s)])) = xs"
  by (simp add: payloadMessages_def gatewayCall_def object_three lookup_def)

lemma destructure_Inr: "req_json req = Inr b \<Longrightarrow> own b ''messages'' = Some v \<Longrightarrow> destructure req = Inr b"
  by (cases b) (simp_all add: destructure_def)

lemma geminiChatPrepare_messages:
  assumes "geminiChatPrepare env req = Inr call" "req_json req = Inr b" "own b ''messages'' = Some (JArr ms)"
  shows "\<exists>prompt. payloadMessages call = systemMessage prompt # slice_last 10 ms"
proof -
  have d: "destructure req = Inr b" using assms(2,3) by (rule destructure_Inr)
  from assms(1) show ?thesis
    unfolding geminiChatPrepare_def d
    by (auto simp: assms(3) geminiRecent_def payloadMessages_gatewayCall split: sum.splits)
qed

lemma deepseekChatPrepare_messages:
  assumes "deepseekChatPrepare P env req = Inr call" "req_json req = Inr b" "own b ''messages'' = Some (JArr ms)"
  shows "\<exists>recent. list_all2 (\<lambda>m r. minimalMessage P m = Inr r) (slice_last 3 ms) recent \<and>
           payloadMessages call = systemMessage ''You are Eliza, an AI assistant for XMRT-DAO.'' # recent"
proof -
  have d: "destructure req = Inr b" using assms(2,3) by (rule destructure_Inr)
  from assms(1) show ?thesis
    unfolding deepseekChatPrepare_def d
    by (auto simp: assms(3) deepseekRecent_def payloadMessages_gatewayCall mapThrowing_in_order
        split: sum.splits)
qed

lemma geminiChat_calls_prepared:
  "call \<in> set (snd (geminiChat env req)) \<Longrightarrow> geminiChatPrepare env req = Inr call"
  by (cases "req_method req = ''OPTIONS''")
    (auto simp: geminiChat_calls split: sum.splits, simp add: geminiChat_def)

lemma deepseekChat_calls_prepared:
  "call \<in> set (snd (deepseekChat P env req)) \<Longrightarrow> deepseekChatPrepare P env req = Inr call"
  by (cases "req_method req = ''OPTIONS''")
    (auto simp: deepseekChat_calls split: sum.splits, simp add: deepseekChat_def)

lemma recentHistory_given:
  "conversationHistory ctx = Some h \<Longrightarrow> recentMessages h = Some hs \<Longrightarrow> recentHistory ctx = slice_last 5 hs"
  by (simp add: recentHistory_def)

text \<open>
  Claim C2. The Direct Assistant Client renders into its prompt the last five messages
  of a supplied history and no others, in their order; Variant A sends the system
  message followed by the last ten elements of a supplied message array; Variant B sends
  the system message followed by the minimal forms of the last three, one for each and
  in their order. The last \<open>n\<close> elements of a list are at most \<open>n\<close> and form its
  suffix.
\<close>

theorem histories_truncated_in_order:
  "(conversationHistory ctx = Some h \<and> recentMessages h = Some hs \<longrightarrow>
      recentHistory ctx = slice_last 5 hs \<and>
      conversationContext ctx =
        (if slice_last 5 hs = [] then []
         else ''\<newline>\<newline>Recent Conversation:\<newline>'' @ join ''\<newline>'' (map renderMessage (slice_last 5 hs))) \<and>
      (\<exists>rest. events (snd (generateTry P E userInput ctx c st)) =
         events st @
         GenerateContent c geminiParams
           (buildSystemPrompt P ctx @ knowledgeContext (relevantKnowledge P (XMRT_KNOWLEDGE_BASE E) userInput)
              @ conversationContext ctx @ ''\<newline>\<newline>User: '' @ userInput @ ''\<newline>\<newline>Eliza:'') # rest)) \<and>
   (req_json req = Inr b \<and> own b ''messages'' = Some (JArr ms) \<longrightarrow>
      (\<forall>call \<in> set (snd (geminiChat env req)).
         \<exists>prompt. payloadMessages call = systemMessage prompt # slice_last 10 ms) \<and>
      (\<forall>call \<in> set (snd (deepseekChat P env req)).
         \<exists>recent. list_all2 (\<lambda>m r. minimalMessage P m = Inr r) (slice_last 3 ms) recent \<and>
           payloadMessages call = systemMessage ''You are Eliza, an AI assistant for XMRT-DAO.'' # recent)) \<and>
   length (slice_last n xs) \<le> n \<and> suffix (slice_last n xs) xs"
proof (intro conjI impI ballI)
  assume a: "conversationHistory ctx = Some h \<and> recentMessages h = Some hs"
  then show r: "recentHistory ctx = slice_last 5 hs"
    by (simp add: recentHistory_given)
  show "conversationContext ctx =
        (if slice_last 5 hs = [] then []
         else ''\<newline>\<newline>Recent Conversation:\<newline>'' @ join ''\<newline>'' (map renderMessage (slice_last 5 hs)))"
    unfolding conversationContext_def r by simp
  from generateTry_events [of P E userInput ctx c st]
  show "\<exists>rest. events (snd (generateTry P E userInput ctx c st)) =
         events st @
         GenerateContent c geminiParams
           (buildSystemPrompt P ctx @ knowledgeContext (relevantKnowledge P (XMRT_KNOWLEDGE_BASE E) userInput)
              @ conversationContext ctx @ ''\<newline>\<newline>User: '' @ userInput @ ''\<newline>\<newline>Eliza:'') # rest"
    unfolding fullPrompt_def by blast
next
  fix call
  assume a: "req_json req = Inr b \<and> own b ''messages'' = Some (JArr ms)"
    and c: "call \<in> set (snd (geminiChat env req))"
  from c have "geminiChatPrepare env req = Inr call" by (rule geminiChat_calls_prepared)
  with a show "\<exists>prompt. payloadMessages call = systemMessage prompt # slice_last 10 ms"
    by (simp add: geminiChatPrepare_messages)
next
  fix call
  assume a: "req_json req = Inr b \<and> own b ''messages'' = Some (JArr ms)"
    and c: "call \<in> set (snd (deepseekChat P env req))"
  from c have "deepseekChatPrepare P env req = Inr call" by (rule deepseekChat_calls_prepared)
  with a show "\<exists>recent. list_all2 (\<lambda>m r. minimalMessage P m = Inr r) (slice_last 3 ms) recent \<and>
           payloadMessages call = systemMessage ''You are Eliza, an AI assistant for XMRT-DAO.'' # recent"
    by (simp add: deepseekChatPrepare_messages)
next
  show "length (slice_last n xs) \<le> n" by (rule slice_last_length)
  show "suffix (slice_last n xs) xs" by (rule slice_last_suffix)
qed

theorem histories_truncated_witness:
  "recentHistory demoContext =
     [\<lparr> sender = ''user'', msg_content = ''three'' \<rparr>, \<lparr> sender = ''eliza'', msg_content = ''four'' \<rparr>,
      \<lparr> sender = ''user'', msg_content = ''five'' \<rparr>, \<lparr> sender = ''eliza'', msg_content = ''six'' \<rparr>,
      \<lparr> sender = ''user'', msg_content = ''seven'' \<rparr>] \<and>
   (\<exists>prompt. payloadMessages demoGeminiCall = systemMessage prompt # drop 2 demoMessages) \<and>
   (\<exists>recent. list_all2 (\<lambda>m r. minimalMessage asciiPlatform m = Inr r) (drop 9 demoMessages) recent \<and>
      payloadMessages demoDeepseekCall = systemMessage ''You are Eliza, an AI assistant for XMRT-DAO.'' # recent) \<and>
   length (slice_last 3 demoMessages) \<le> 3 \<and> suffix (slice_last 3 demoMessages) demoMessages"
proof -
  let ?hs = "[\<lparr> sender = ''user'', msg_content = ''one'' \<rparr>, \<lparr> sender = ''eliza'', msg_content = ''two'' \<rparr>,
          \<lparr> sender = ''user'', msg_content = ''three'' \<rparr>, \<lparr> sender = ''eliza'', msg_content = ''four'' \<rparr>,
          \<lparr> sender = ''user'', msg_content = ''five'' \<rparr>, \<lparr> sender = ''eliza'', msg_content = ''six'' \<rparr>,
          \<lparr> sender = ''user'', msg_content = ''seven'' \<rparr>]"
  let ?env = "demoEnv (Some ''key'') (gatewayAnswers 200)"
  note T = histories_truncated_in_order
    [of demoContext "\<lparr> recentMessages = Some ?hs \<rparr>" ?hs asciiPlatform _ _ _ _
        "post demoBody" demoBody demoMessages ?env 3 demoMessages]
  have h: "conversationHistory demoContext = Some \<lparr> recentMessages = Some ?hs \<rparr> \<and>
           recentMessages \<lparr> recentMessages = Some ?hs \<rparr> = Some ?hs"
    by (simp add: demoContext_def)
  from T [THEN conjunct1, THEN mp, OF h, THEN conjunct1]
  have "recentHistory demoContext = slice_last 5 ?hs" .
  then have 1: "recentHistory demoContext = drop 2 ?hs"
    by (simp add: slice_last_def)
  have b: "req_json (post demoBody) = Inr demoBody \<and> own demoBody ''messages'' = Some (JArr demoMessages)"
    by (simp add: post_def demoBody_def lookup_def)
  have ten: "slice_last 10 demoMessages = drop 2 demoMessages"
    and three: "slice_last 3 demoMessages = drop 9 demoMessages"
    by (simp_all add: slice_last_def demoMessages_def)
  from T [THEN conjunct2, THEN conjunct1, THEN mp, OF b, THEN conjunct1]
  have "\<exists>prompt. payloadMessages demoGeminiCall = systemMessage prompt # slice_last 10 demoMessages"
    by (rule bspec) (simp add: demo_gemini_calls)
  then have 2: "\<exists>prompt. payloadMessages demoGeminiCall = systemMessage prompt # drop 2 demoMessages"
    by (simp only: ten)
  from T [THEN conjunct2, THEN conjunct1, THEN mp, OF b, THEN conjunct2]
  have "\<exists>recent. list_all2 (\<lambda>m r. minimalMessage asciiPlatform m = Inr r) (slice_last 3 demoMessages) recent \<and>
      payloadMessages demoDeepseekCall = systemMessage ''You are Eliza, an AI assistant for XMRT-DAO.'' # recent"
    by (rule bspec) (simp add: demo_deepseek_calls)
  then have 3: "\<exists>recent. list_all2 (\<lambda>m r. minimalMessage asciiPlatform m = Inr r) (drop 9 demoMessages) recent \<and>
      payloadMessages demoDeepseekCall = systemMessage ''You are Eliza, an AI assistant for XMRT-DAO.'' # recent"
    by (simp only: three)
  from T [THEN conjunct2, THEN conjunct2]
  have 4: "length (slice_last 3 demoMessages) \<le> 3 \<and> suffix (slice_last 3 demoMessages) demoMessages" .
  from 1 2 3 4 show ?thesis by simp
qed

section \<open>Properties of the Speech Synthesis Wrapper\<close>

lemma speak_promise: "fst (speak words speed w) = (if speechSynthesis w = None then Resolved else Pending)"
  by (simp add: speak_def tts_initialize_def loadVoices_def Let_def split: option.splits sum.splits)

lemma speak_absent:
  "speechSynthesis w = None \<Longrightarrow>
   snd (speak words speed w) =
     w\<lparr>toasts := toasts w @ [''Text-to-speech not supported in this browser''], isInitialized := True\<rparr>"
  by (simp add: speak_def tts_initialize_def loadVoices_def Let_def)

lemma speak_present:
  "speechSynthesis w = Some synth \<Longrightarrow>
   currentUtterance (snd (speak words speed w)) = Some (newUtterance words speed (voices synth)) \<and>
   speechSynthesis (snd (speak words speed w)) =
     Some (synth\<lparr>synth_calls := synth_calls synth @ [Cancel, Speak (newUtterance words speed (voices synth))]\<rparr>)"
  by (simp add: speak_def tts_initialize_def loadVoices_def Let_def)

text \<open>
  Claim C8. Whatever the call of \<open>speak\<close>, the end of playback leaves its promise
  resolved, and so does an error event whose cause is "canceled". When the browser has
  speech synthesis, the promise is pending until an event of the utterance arrives, and
  an error event with any other cause rejects it with the error "Speech synthesis
  error: " followed by the cause. A settled promise is not changed by a later event.
\<close>

theorem speak_promise_follows_playback_events:
  "fst (onend (speak words speed w)) = Resolved \<and>
   fst (onerror ''canceled'' (speak words speed w)) = Resolved \<and>
   (speechSynthesis w = Some synth \<longrightarrow>
      fst (speak words speed w) = Pending \<and>
      (\<exists>synth'. speechSynthesis (snd (speak words speed w)) = Some synth' \<and>
         Speak (newUtterance words speed (voices synth)) \<in> set (synth_calls synth'))) \<and>
   (speechSynthesis w = Some synth \<and> cause \<noteq> ''canceled'' \<longrightarrow>
      fst (onerror cause (speak words speed w)) = Rejected (Error (''Speech synthesis error: '' @ cause)) \<and>
      message (Error (''Speech synthesis error: '' @ cause)) = ''Speech synthesis error: '' @ cause) \<and>
   (p \<noteq> Pending \<longrightarrow> fst (onend (p, w)) = p \<and> fst (onerror cause (p, w)) = p)"
proof (intro conjI impI)
  show "fst (onend (speak words speed w)) = Resolved"
    by (cases "speak words speed w") (use speak_promise [of words speed w] in \<open>auto simp: onend_def\<close>)
  show "fst (onerror ''canceled'' (speak words speed w)) = Resolved"
    by (cases "speak words speed w") (use speak_promise [of words speed w] in \<open>auto simp: onerror_def\<close>)
next
  assume "speechSynthesis w = Some synth"
  then show "fst (speak words speed w) = Pending"
    by (simp add: speak_promise)
next
  assume "speechSynthesis w = Some synth"
  then show "\<exists>synth'. speechSynthesis (snd (speak words speed w)) = Some synth' \<and>
         Speak (newUtterance words speed (voices synth)) \<in> set (synth_calls synth')"
    by (simp add: speak_present)
next
  assume a: "speechSynthesis w = Some synth \<and> cause \<noteq> ''canceled''"
  then have "fst (speak words speed w) = Pending"
    by (simp add: speak_promise)
  with a show "fst (onerror cause (speak words speed w)) = Rejected (Error (''Speech synthesis error: '' @ cause))"
    by (cases "speak words speed w") (simp add: onerror_def)
next
  show "message (Error (''Speech synthesis error: '' @ cause)) = ''Speech synthesis error: '' @ cause"
    by simp
next
  assume "p \<noteq> Pending"
  then show "fst (onend (p, w)) = p"
    by (cases p) (simp_all add: onend_def)
next
  assume "p \<noteq> Pending"
  then show "fst (onerror cause (p, w)) = p"
    by (cases p) (simp_all add: onerror_def)
qed

theorem speak_promise_witness:
  "fst (speak ''hello'' None (initial_world (Some demoSynth))) = Pending \<and>
   fst (onend (speak ''hello'' None (initial_world (Some demoSynth)))) = Resolved \<and>
   fst (onerror ''canceled'' (speak ''hello'' None (initial_world (Some demoSynth)))) = Resolved \<and>
   fst (onerror ''interrupted'' (speak ''hello'' None (initial_world (Some demoSynth)))) =
     Rejected (Error ''Speech synthesis error: interrupted'') \<and>
   fst (onerror ''network'' (onend (speak ''hello'' None (initial_world (Some demoSynth))))) = Resolved \<and>
   currentUtterance (snd (speak ''hello'' None (initial_world (Some demoSynth)))) =
     Some \<lparr> spoken = ''hello'', rate = 9 / 10, pitch = 1, volume = 1,
            voice = Some \<lparr> voice_name = ''Samantha'', lang = ''en-US'', localService = True \<rparr> \<rparr>"
proof -
  let ?w = "initial_world (Some demoSynth)"
  note T = speak_promise_follows_playback_events [of "''hello''" None ?w demoSynth]
  have s: "speechSynthesis ?w = Some demoSynth"
    by (simp add: initial_world_def)
  from T [THEN conjunct1] have 1: "fst (onend (speak ''hello'' None ?w)) = Resolved" .
  from T [THEN conjunct2, THEN conjunct1]
  have 2: "fst (onerror ''canceled'' (speak ''hello'' None ?w)) = Resolved" .
  from T [THEN conjunct2, THEN conjunct2, THEN conjunct1, THEN mp, OF s]
  have 3: "fst (speak ''hello'' None ?w) = Pending" by simp
  have 4: "fst (onerror ''interrupted'' (speak ''hello'' None ?w)) =
     Rejected (Error (''Speech synthesis error: '' @ ''interrupted''))"
    using T [of "''interrupted''", THEN conjunct2, THEN conjunct2, THEN conjunct2, THEN conjunct1] s
    by simp
  have 5: "fst (onerror ''network'' (onend (speak ''hello'' None ?w))) = Resolved"
    using T [of "''network''" Resolved, THEN conjunct2, THEN conjunct2, THEN conjunct2, THEN conjunct2] 1
    by (cases "onend (speak ''hello'' None ?w)") (simp add: onerror_def)
  have 6: "currentUtterance (snd (speak ''hello'' None ?w)) =
     Some \<lparr> spoken = ''hello'', rate = 9 / 10, pitch = 1, volume = 1,
            voice = Some \<lparr> voice_name = ''Samantha'', lang = ''en-US'', localService = True \<rparr> \<rparr>"
    using speak_present [OF s, of "''hello''" None]
    by (simp add: newUtterance_def preferredVoice_def demoSynth_def)
  from 1 2 3 4 5 6 show ?thesis by simp
qed

text \<open>
  Claim C10. When the browser has no speech synthesis, the promise of \<open>speak\<close> is
  resolved when it is returned, the held utterance is what it was before
  the call (none, from the initial state), and \<open>isSpeaking\<close>, if it answered false
  before the call, answers false after it.
\<close>

theorem speak_without_speech_synthesis:
  "(speechSynthesis w = None \<longrightarrow>
      fst (speak words speed w) = Resolved \<and>
      currentUtterance (snd (speak words speed w)) = currentUtterance w \<and>
      speechSynthesis (snd (speak words speed w)) = None \<and>
      (isSpeaking w = Inr False \<longrightarrow> isSpeaking (snd (speak words speed w)) = Inr False)) \<and>
   fst (speak words speed (initial_world None)) = Resolved \<and>
   currentUtterance (snd (speak words speed (initial_world None))) = None \<and>
   isSpeaking (snd (speak words speed (initial_world None))) = Inr False"
proof -
  have absent: "fst (speak words speed w) = Resolved \<and>
      currentUtterance (snd (speak words speed w)) = currentUtterance w \<and>
      speechSynthesis (snd (speak words speed w)) = None \<and>
      (isSpeaking w = Inr False \<longrightarrow> isSpeaking (snd (speak words speed w)) = Inr False)"
    if "speechSynthesis w = None" for w
    using that by (simp add: speak_promise speak_absent isSpeaking_def split: option.splits)
  have init: "speechSynthesis (initial_world None) = None" "currentUtterance (initial_world None) = None"
    "isSpeaking (initial_world None) = Inr False"
    by (simp_all add: initial_world_def isSpeaking_def)
  from absent [of w] absent [OF init(1)] init(2,3) show ?thesis by simp
qed

theorem speak_without_speech_synthesis_witness:
  "speechSynthesis (initial_world None) = None \<and>
   isSpeaking (initial_world None) = Inr False \<and>
   speak ''hello'' None (initial_world None) =
     (Resolved,
      \<lparr> speechSynthesis = None, toasts = [''Text-to-speech not supported in this browser''],
        lastMethod = ''Web Speech API'', currentUtterance = None, isInitialized = True \<rparr>) \<and>
   isSpeaking (snd (speak ''hello'' None (initial_world None))) = Inr False"
proof -
  have s: "speechSynthesis (initial_world None) = None"
    and i: "isSpeaking (initial_world None) = Inr False"
    by (simp_all add: initial_world_def isSpeaking_def)
  note T = speak_without_speech_synthesis [of "initial_world None" "''hello''" None, THEN conjunct1, THEN mp, OF s]
  from T have p: "fst (speak ''hello'' None (initial_world None)) = Resolved" by simp
  from T i have q: "isSpeaking (snd (speak ''hello'' None (initial_world None))) = Inr False" by simp
  have w: "snd (speak ''hello'' None (initial_world None)) =
      \<lparr> speechSynthesis = None, toasts = [''Text-to-speech not supported in this browser''],
        lastMethod = ''Web Speech API'', currentUtterance = None, isInitialized = True \<rparr>"
    using speak_absent [OF s, of "''hello''" None] by (simp add: initial_world_def)
  from s i p q w show ?thesis by (simp add: prod_eq_iff)
qed

end
